theory Spec2Isabelle
  imports Main "HOL-Library.Word"
begin

text \<open>
  A model of the data source of the card-battle server (\<^verbatim>\<open>server/server.js\<close>, class
  \<^verbatim>\<open>DataSourceJson\<close>): the import of catalogue files, the projection of stored cards,
  and the creation, update and lookup of battles. JavaScript values, exceptions and the
  MongoDB collections are made explicit: a function that can throw returns
  \<open>error + 'a\<close>, and a function that writes to a collection takes the collection and
  returns the new one.
\<close>

section \<open>JavaScript strings and JSON values\<close>

text \<open>
  A JavaScript string is a sequence of 16-bit code units. \<^verbatim>\<open>js\<close> turns an Isabelle
  literal (characters 0 to 255) into the string with the same code units.
\<close>

type_synonym jschar = "16 word"
type_synonym jsstring = "jschar list"

definition js :: "string \<Rightarrow> jsstring" where
  "js s = map (\<lambda>c. of_nat (of_char c)) s"

text \<open>The supertype the import filter compares with: \<^verbatim>\<open>Pok\<close>, U+00E9, \<^verbatim>\<open>mon\<close>.\<close>

definition pokemon :: jsstring where
  "pokemon = js ''Pok'' @ [0xE9] @ js ''mon''"

text \<open>
  The code units that \<^verbatim>\<open>String.prototype.trim\<close> and \<^verbatim>\<open>parseInt\<close> skip: ECMAScript's
  WhiteSpace (TAB, VT, FF, SP, NBSP, ZWNBSP and the Unicode category Zs) and
  LineTerminator (LF, CR, LS, PS).
\<close>

definition isWhiteSpace :: "jschar \<Rightarrow> bool" where
  "isWhiteSpace c \<longleftrightarrow>
     c \<in> {0x9, 0xA, 0xB, 0xC, 0xD, 0x20, 0xA0, 0x1680, 0x2028, 0x2029, 0x202F, 0x205F,
          0x3000, 0xFEFF}
     \<or> (0x2000 \<le> c \<and> c \<le> 0x200A)"

definition trim :: "jsstring \<Rightarrow> jsstring" where
  "trim s = rev (dropWhile isWhiteSpace (rev (dropWhile isWhiteSpace s)))"

text \<open>
  The values \<^verbatim>\<open>JSON.parse\<close> produces. An object is the list of its properties in
  order; a property is read with \<^const>\<open>map_of\<close>. A number is held as the string that
  JavaScript prints for it (\<^verbatim>\<open>40\<close>, \<^verbatim>\<open>12.5\<close>, \<^verbatim>\<open>1e+21\<close>), which determines the
  number up to the sign of zero: the program only tests numbers for zero, prints them and
  compares them. A JavaScript value that may be \<^verbatim>\<open>undefined\<close> is a \<open>json option\<close>, with
  \<open>None\<close> for \<^verbatim>\<open>undefined\<close>.
\<close>

datatype json =
    JNull
  | JBool bool
  | JNum jsstring
  | JStr jsstring
  | JArr "json list"
  | JObj "(jsstring \<times> json) list"

text \<open>
  The exceptions of the program: JavaScript's TypeError and SyntaxError, the driver's
  errors (an invalid ObjectId string, a rejected write), and the errors the data source
  throws itself with \<^verbatim>\<open>new Error(message)\<close>.
\<close>

datatype error = TypeError | SyntaxError | BSONError | MongoError | Error string

text \<open>ToBoolean, as used by \<^verbatim>\<open>&&\<close>, \<^verbatim>\<open>!\<close> and the conditional operator.\<close>

fun truthy :: "json option \<Rightarrow> bool" where
  "truthy None = False"
| "truthy (Some JNull) = False"
| "truthy (Some (JBool b)) = b"
| "truthy (Some (JNum n)) = (n \<noteq> js ''0'')"
| "truthy (Some (JStr s)) = (s \<noteq> [])"
| "truthy (Some (JArr xs)) = True"
| "truthy (Some (JObj fs)) = True"

text \<open>
  The property read \<^verbatim>\<open>v.p\<close>: a TypeError on \<^verbatim>\<open>undefined\<close> and \<^verbatim>\<open>null\<close>, the
  property of an object, and \<^verbatim>\<open>undefined\<close> on a string, number, boolean or array (the
  names this program reads, such as \<^verbatim>\<open>supertype\<close>, \<^verbatim>\<open>attacks\<close> and \<^verbatim>\<open>damage\<close>,
  are not properties of their prototypes).
\<close>

fun getProp :: "json option \<Rightarrow> jsstring \<Rightarrow> error + json option" where
  "getProp None p = Inl TypeError"
| "getProp (Some JNull) p = Inl TypeError"
| "getProp (Some (JObj fs)) p = Inr (map_of fs p)"
| "getProp (Some v) p = Inr None"

text \<open>
  \<^verbatim>\<open>Array.prototype.some\<close>, \<^verbatim>\<open>find\<close>, \<^verbatim>\<open>filter\<close> and \<^verbatim>\<open>map\<close> with a callback that
  may throw: the elements are visited in order and the first exception ends the call.
\<close>

fun some_js :: "('a \<Rightarrow> error + bool) \<Rightarrow> 'a list \<Rightarrow> error + bool" where
  "some_js f [] = Inr False"
| "some_js f (x # xs) =
     (case f x of Inl e \<Rightarrow> Inl e
      | Inr b \<Rightarrow> if b then Inr True else some_js f xs)"

fun find_js :: "('a \<Rightarrow> error + bool) \<Rightarrow> 'a list \<Rightarrow> error + 'a option" where
  "find_js f [] = Inr None"
| "find_js f (x # xs) =
     (case f x of Inl e \<Rightarrow> Inl e
      | Inr b \<Rightarrow> if b then Inr (Some x) else find_js f xs)"

fun filter_js :: "('a \<Rightarrow> error + bool) \<Rightarrow> 'a list \<Rightarrow> error + 'a list" where
  "filter_js f [] = Inr []"
| "filter_js f (x # xs) =
     (case f x of Inl e \<Rightarrow> Inl e
      | Inr b \<Rightarrow> (case filter_js f xs of Inl e \<Rightarrow> Inl e
                  | Inr ys \<Rightarrow> Inr (if b then x # ys else ys)))"

fun map_js :: "('a \<Rightarrow> error + 'b) \<Rightarrow> 'a list \<Rightarrow> error + 'b list" where
  "map_js f [] = Inr []"
| "map_js f (x # xs) =
     (case f x of Inl e \<Rightarrow> Inl e
      | Inr y \<Rightarrow> (case map_js f xs of Inl e \<Rightarrow> Inl e | Inr ys \<Rightarrow> Inr (y # ys)))"

subsection \<open>ToString and parseInt\<close>

fun joinComma :: "jsstring list \<Rightarrow> jsstring" where
  "joinComma [] = []"
| "joinComma [s] = s"
| "joinComma (s # t # ss) = s @ 44 # joinComma (t # ss)"

text \<open>
  ToString on the values of \<^typ>\<open>json\<close>: a number prints as the string that stands for
  it, and an array prints its elements separated by commas, with nothing for \<^verbatim>\<open>null\<close>.
\<close>

fun toString :: "json \<Rightarrow> jsstring" where
  "toString JNull = js ''null''"
| "toString (JBool b) = (if b then js ''true'' else js ''false'')"
| "toString (JNum n) = n"
| "toString (JStr s) = s"
| "toString (JArr xs) = joinComma (map (\<lambda>x. case x of JNull \<Rightarrow> [] | _ \<Rightarrow> toString x) xs)"
| "toString (JObj fs) = js ''[object Object]''"

definition ToString :: "json option \<Rightarrow> jsstring" where
  "ToString v = (case v of None \<Rightarrow> js ''undefined'' | Some x \<Rightarrow> toString x)"

text \<open>
  The Numbers \<^verbatim>\<open>parseInt\<close> can return: \<^verbatim>\<open>NaN\<close>, a double with an integer value
  (\<open>Num 0\<close> is \<^verbatim>\<open>+0\<close>), \<^verbatim>\<open>-0\<close>, and the two infinities.
\<close>

datatype jsnumber = NaN | Num int | NegZero | PosInfinity | NegInfinity

text \<open>
  The double nearest to a natural number, ties to the even significand: numbers of up to 53
  bits are doubles; a longer one keeps its 53 leading bits, rounded; from
  \<open>2 ^ 1024\<close> on the result is infinite (\<open>None\<close>).
\<close>

fun bitlen :: "nat \<Rightarrow> nat" where
  "bitlen n = (if n = 0 then 0 else Suc (bitlen (n div 2)))"

declare bitlen.simps [simp del]

definition roundToDouble :: "nat \<Rightarrow> nat option" where
  "roundToDouble n =
     (if bitlen n \<le> 53 then Some n
      else (let e = bitlen n - 53;
                q = n div 2 ^ e;
                r = n mod 2 ^ e;
                q' = (if 2 ^ (e - 1) < r \<or> (r = 2 ^ (e - 1) \<and> odd q) then q + 1 else q);
                v = q' * 2 ^ e
            in if v < 2 ^ 1024 then Some v else None))"

definition toNumber :: "bool \<Rightarrow> nat \<Rightarrow> jsnumber" where
  "toNumber negative mathInt =
     (if mathInt = 0 then (if negative then NegZero else Num 0)
      else (case roundToDouble mathInt of
              None \<Rightarrow> (if negative then NegInfinity else PosInfinity)
            | Some v \<Rightarrow> Num (if negative then - int v else int v)))"

text \<open>
  \<^verbatim>\<open>parseInt(string)\<close> without a radix: leading white space is skipped, a sign is read,
  the prefix \<^verbatim>\<open>0x\<close> or \<^verbatim>\<open>0X\<close> selects radix 16 (radix 10 otherwise), and the longest
  run of digits of that radix is the value, converted to a double; no digit at all gives
  \<^verbatim>\<open>NaN\<close>. The digits are converted exactly, as V8 does; ECMAScript lets an engine
  read the decimal digits after the twentieth as zeros.
\<close>

definition digitVal :: "nat \<Rightarrow> jschar \<Rightarrow> nat option" where
  "digitVal R c =
     (let v = (if 48 \<le> c \<and> c \<le> 57 then Some (unat c - 48)
               else if 97 \<le> c \<and> c \<le> 122 then Some (unat c - 87)
               else if 65 \<le> c \<and> c \<le> 90 then Some (unat c - 55)
               else None)
      in case v of None \<Rightarrow> None | Some d \<Rightarrow> if d < R then Some d else None)"

fun digitsPrefix :: "nat \<Rightarrow> jsstring \<Rightarrow> nat list" where
  "digitsPrefix R [] = []"
| "digitsPrefix R (c # cs) =
     (case digitVal R c of None \<Rightarrow> [] | Some d \<Rightarrow> d # digitsPrefix R cs)"

definition parseDigits :: "nat \<Rightarrow> jsstring \<Rightarrow> nat option" where
  "parseDigits R s =
     (case digitsPrefix R s of [] \<Rightarrow> None
      | d # ds \<Rightarrow> Some (foldl (\<lambda>a x. a * R + x) 0 (d # ds)))"

fun stripPrefix :: "jsstring \<Rightarrow> nat \<times> jsstring" where
  "stripPrefix (a # b # cs) =
     (if a = 48 \<and> (b = 120 \<or> b = 88) then (16, cs) else (10, a # b # cs))"
| "stripPrefix cs = (10, cs)"

fun stripSign :: "jsstring \<Rightarrow> bool \<times> jsstring" where
  "stripSign [] = (False, [])"
| "stripSign (c # cs) =
     (if c = 45 then (True, cs) else if c = 43 then (False, cs) else (False, c # cs))"

definition parseIntString :: "jsstring \<Rightarrow> jsnumber" where
  "parseIntString inputString =
     (case stripSign (dropWhile isWhiteSpace inputString) of (negative, S) \<Rightarrow>
        (case stripPrefix S of (R, S') \<Rightarrow>
           (case parseDigits R S' of None \<Rightarrow> NaN | Some mathInt \<Rightarrow> toNumber negative mathInt)))"

definition parseInt :: "json option \<Rightarrow> jsnumber" where
  "parseInt v = parseIntString (ToString v)"

section \<open>The card catalogue\<close>

subsection \<open>ObjectId\<close>

text \<open>
  The identifier MongoDB gives a document: twelve bytes. \<^verbatim>\<open>new ObjectId(s)\<close> accepts a
  string of 24 hexadecimal digits and throws on any other string; \<^verbatim>\<open>toString()\<close>
  prints the 24 digits in lower case.
\<close>

type_synonym objectid = "96 word"

definition hexVal :: "char \<Rightarrow> nat option" where
  "hexVal c =
     (let n = (of_char c :: nat)
      in if 48 \<le> n \<and> n \<le> 57 then Some (n - 48)
         else if 97 \<le> n \<and> n \<le> 102 then Some (n - 87)
         else if 65 \<le> n \<and> n \<le> 70 then Some (n - 55)
         else None)"

fun parseHex :: "string \<Rightarrow> nat \<Rightarrow> nat option" where
  "parseHex [] acc = Some acc"
| "parseHex (c # cs) acc =
     (case hexVal c of None \<Rightarrow> None | Some v \<Rightarrow> parseHex cs (acc * 16 + v))"

definition ObjectId_new :: "string \<Rightarrow> error + objectid" where
  "ObjectId_new s =
     (if length s = 24
      then (case parseHex s 0 of None \<Rightarrow> Inl BSONError | Some n \<Rightarrow> Inr (of_nat n))
      else Inl BSONError)"

definition hexDigit :: "nat \<Rightarrow> char" where
  "hexDigit d = ''0123456789abcdef'' ! (d mod 16)"

definition toHexString :: "objectid \<Rightarrow> string" where
  "toHexString x = map (\<lambda>i. hexDigit (unat (drop_bit (4 * (23 - i)) x))) [0..<24]"

subsection \<open>Collections\<close>

text \<open>
  A collection holds its documents in insertion order, and the \<^verbatim>\<open>_id\<close> the server
  gives the next inserted document. A stored card is its \<^verbatim>\<open>_id\<close> and the
  properties of the imported record.
\<close>

record 'd collection =
  docs :: "'d list"
  nextId :: objectid

record cardDoc =
  doc_id :: objectid
  doc_fields :: "(jsstring \<times> json) list"

text \<open>\<^verbatim>\<open>$set\<close>: each property of the update replaces the stored one or is added.\<close>

fun setField :: "'k \<Rightarrow> 'v \<Rightarrow> ('k \<times> 'v) list \<Rightarrow> ('k \<times> 'v) list" where
  "setField k v [] = [(k, v)]"
| "setField k v ((k', v') # fs) =
     (if k' = k then (k, v) # fs else (k', v') # setField k v fs)"

definition setFields :: "('k \<times> 'v) list \<Rightarrow> ('k \<times> 'v) list \<Rightarrow> ('k \<times> 'v) list" where
  "setFields fs new = foldl (\<lambda>acc (k, v). setField k v acc) fs new"

text \<open>
  The filter \<^verbatim>\<open>{ id: card.id }\<close>: an \<^verbatim>\<open>undefined\<close> id is sent as \<^verbatim>\<open>null\<close>, and
  \<^verbatim>\<open>null\<close> matches a document whose \<^verbatim>\<open>id\<close> is \<^verbatim>\<open>null\<close> or missing.
\<close>

definition bsonValue :: "json option \<Rightarrow> json" where
  "bsonValue v = (case v of None \<Rightarrow> JNull | Some x \<Rightarrow> x)"

definition idMatches :: "json \<Rightarrow> cardDoc \<Rightarrow> bool" where
  "idMatches k d \<longleftrightarrow> bsonValue (map_of (doc_fields d) (js ''id'')) = k"

record updateOne =
  filter_id :: json
  set_doc :: json

text \<open>
  \<^verbatim>\<open>updateOne\<close> with \<^verbatim>\<open>upsert: true\<close>: the first matching document is updated; when
  none matches, a document made of the filter's \<^verbatim>\<open>id\<close> and the update is inserted.
  \<^verbatim>\<open>bulkWrite\<close> applies the operations in order, stops at the first that fails, and
  rejects an empty batch.
\<close>

fun updateFirst :: "('d \<Rightarrow> bool) \<Rightarrow> ('d \<Rightarrow> 'd) \<Rightarrow> 'd list \<Rightarrow> 'd list option" where
  "updateFirst P f [] = None"
| "updateFirst P f (d # ds) =
     (if P d then Some (f d # ds)
      else (case updateFirst P f ds of None \<Rightarrow> None | Some ds' \<Rightarrow> Some (d # ds')))"

definition upsertOne :: "cardDoc collection \<Rightarrow> updateOne \<Rightarrow> error + cardDoc collection" where
  "upsertOne db op =
     (case set_doc op of
        JObj fs \<Rightarrow>
          (case updateFirst (idMatches (filter_id op))
                  (\<lambda>d. d\<lparr>doc_fields := setFields (doc_fields d) fs\<rparr>) (docs db) of
             Some ds \<Rightarrow> Inr (db\<lparr>docs := ds\<rparr>)
           | None \<Rightarrow>
               Inr \<lparr> docs = docs db @
                       [\<lparr> doc_id = nextId db,
                          doc_fields = setFields [(js ''id'', filter_id op)] fs \<rparr>],
                     nextId = nextId db + 1 \<rparr>)
      | _ \<Rightarrow> Inl MongoError)"

fun applyOps :: "cardDoc collection \<Rightarrow> updateOne list \<Rightarrow> cardDoc collection \<times> error option" where
  "applyOps db [] = (db, None)"
| "applyOps db (op # ops) =
     (case upsertOne db op of Inl e \<Rightarrow> (db, Some e) | Inr db' \<Rightarrow> applyOps db' ops)"

definition bulkWrite :: "cardDoc collection \<Rightarrow> updateOne list \<Rightarrow> cardDoc collection \<times> error option" where
  "bulkWrite db ops = (if ops = [] then (db, Some MongoError) else applyOps db ops)"

subsection \<open>importCardsFromFile\<close>

text \<open>
  What \<^verbatim>\<open>importCardsFromFile\<close> finds at the path: no file, a file that
  \<^verbatim>\<open>JSON.parse\<close> rejects, or a parsed value. What it writes to the console: one line
  per call.
\<close>

datatype cardFile = NoFile | Unparsable | Parsed json

datatype logEntry = FileNotFound | ImportError error | Processed nat

text \<open>
  The two arrow functions of the filter (lines 62 to 67):
  \<^verbatim>\<open>attack.damage && attack.damage.trim() !== ""\<close> on an attack, and
  \<^verbatim>\<open>card.supertype === S && card.attacks && card.attacks.some(...)\<close> on a record,
  where \<^verbatim>\<open>S\<close> is the literal \<^const>\<open>pokemon\<close>. Calling \<^verbatim>\<open>trim\<close> on a value that
  is not a string, or \<^verbatim>\<open>some\<close> on one that is not an array, is a TypeError.
\<close>

definition importFilterAttack :: "json \<Rightarrow> error + bool" where
  "importFilterAttack a =
     (case getProp (Some a) (js ''damage'') of
        Inl e \<Rightarrow> Inl e
      | Inr d \<Rightarrow>
          if truthy d
          then (case d of Some (JStr s) \<Rightarrow> Inr (trim s \<noteq> []) | _ \<Rightarrow> Inl TypeError)
          else Inr False)"

definition importFilter :: "json \<Rightarrow> error + bool" where
  "importFilter c =
     (case getProp (Some c) (js ''supertype'') of
        Inl e \<Rightarrow> Inl e
      | Inr supertype \<Rightarrow>
          if supertype = Some (JStr pokemon)
          then (case getProp (Some c) (js ''attacks'') of
                  Inl e \<Rightarrow> Inl e
                | Inr attacks \<Rightarrow>
                    if truthy attacks
                    then (case attacks of
                            Some (JArr as) \<Rightarrow> some_js importFilterAttack as
                          | _ \<Rightarrow> Inl TypeError)
                    else Inr False)
          else Inr False)"

text \<open>The bulk operation built for an accepted record (lines 69 to 75).\<close>

definition bulkOp :: "json \<Rightarrow> error + updateOne" where
  "bulkOp c =
     (case getProp (Some c) (js ''id'') of
        Inl e \<Rightarrow> Inl e
      | Inr i \<Rightarrow> Inr \<lparr> filter_id = bsonValue i, set_doc = c \<rparr>)"

text \<open>
  \<^verbatim>\<open>importCardsFromFile\<close> (lines 49 to 82). Everything after the existence check
  runs inside one \<^verbatim>\<open>try\<close>: whatever is thrown is logged and the call returns.
\<close>

definition importCardsFromFile ::
    "cardDoc collection \<Rightarrow> cardFile \<Rightarrow> cardDoc collection \<times> logEntry" where
  "importCardsFromFile db f =
     (case f of
        NoFile \<Rightarrow> (db, FileNotFound)
      | Unparsable \<Rightarrow> (db, ImportError SyntaxError)
      | Parsed allCards \<Rightarrow>
          (case allCards of
             JArr cards \<Rightarrow>
               (case filter_js importFilter cards of
                  Inl e \<Rightarrow> (db, ImportError e)
                | Inr filteredCards \<Rightarrow>
                    (case map_js bulkOp filteredCards of
                       Inl e \<Rightarrow> (db, ImportError e)
                     | Inr bulkOps \<Rightarrow>
                         (case bulkWrite db bulkOps of
                            (db', Some e) \<Rightarrow> (db', ImportError e)
                          | (db', None) \<Rightarrow> (db', Processed (length filteredCards)))))
           | _ \<Rightarrow> (db, ImportError TypeError)))"

text \<open>The start-up loop over the catalogue files (lines 382 to 385).\<close>

fun importAll :: "cardDoc collection \<Rightarrow> cardFile list \<Rightarrow> cardDoc collection \<times> logEntry list" where
  "importAll db [] = (db, [])"
| "importAll db (f # fs) =
     (case importCardsFromFile db f of (db', l) \<Rightarrow>
        (case importAll db' fs of (db'', ls) \<Rightarrow> (db'', l # ls)))"

subsection \<open>Decorated cards\<close>

text \<open>The card \<^verbatim>\<open>_decorateCard\<close> returns, with its single attack.\<close>

record Attack =
  name :: "json option"
  damage :: jsnumber

record Card =
  card_id :: string
  card_name :: "json option"
  level :: jsnumber
  hp :: jsnumber
  attack :: Attack
  rarity :: "json option"
  images :: "json option"

text \<open>
  \<^verbatim>\<open>_decorateCard\<close> (lines 270 to 293). Its callback is
  \<^verbatim>\<open>attack.damage.trim() !== ""\<close>, without the test for a missing damage that the import
  filter makes first.
\<close>

definition decorateAttackValid :: "json \<Rightarrow> error + bool" where
  "decorateAttackValid a =
     (case getProp (Some a) (js ''damage'') of
        Inl e \<Rightarrow> Inl e
      | Inr (Some (JStr s)) \<Rightarrow> Inr (trim s \<noteq> [])
      | Inr _ \<Rightarrow> Inl TypeError)"

definition decorateCard :: "cardDoc \<Rightarrow> error + Card" where
  "decorateCard c =
     (case map_of (doc_fields c) (js ''attacks'') of
        Some (JArr as) \<Rightarrow>
          (case find_js decorateAttackValid as of
             Inl e \<Rightarrow> Inl e
           | Inr None \<Rightarrow>
               Inl (Error (''No valid attack found for card with id: '' @ toHexString (doc_id c)))
           | Inr (Some firstValidAttack) \<Rightarrow>
               (case getProp (Some firstValidAttack) (js ''name'') of
                  Inl e \<Rightarrow> Inl e
                | Inr n \<Rightarrow>
                   (case getProp (Some firstValidAttack) (js ''damage'') of
                      Inl e \<Rightarrow> Inl e
                    | Inr d \<Rightarrow>
                        Inr \<lparr> card_id = toHexString (doc_id c),
                              card_name = map_of (doc_fields c) (js ''name''),
                              level = parseInt (map_of (doc_fields c) (js ''level'')),
                              hp = parseInt (map_of (doc_fields c) (js ''hp'')),
                              attack = \<lparr> name = n, damage = parseInt d \<rparr>,
                              rarity = map_of (doc_fields c) (js ''rarity''),
                              images = map_of (doc_fields c) (js ''images'') \<rparr>)))
      | _ \<Rightarrow> Inl TypeError)"

text \<open>\<^verbatim>\<open>getCards\<close> (lines 152 to 156) and \<^verbatim>\<open>getCard\<close> (lines 90 to 94).\<close>

definition getCards :: "cardDoc collection \<Rightarrow> error + Card list" where
  "getCards db = map_js decorateCard (docs db)"

definition getCard :: "cardDoc collection \<Rightarrow> string option \<Rightarrow> error + Card option" where
  "getCard db i =
     (case i of
        None \<Rightarrow> Inr None
      | Some s \<Rightarrow>
          if s = [] then Inr None
          else (case ObjectId_new s of
                  Inl e \<Rightarrow> Inl e
                | Inr oid \<Rightarrow>
                    (case find (\<lambda>d. doc_id d = oid) (docs db) of
                       None \<Rightarrow> Inr None
                     | Some d \<Rightarrow>
                         (case decorateCard d of Inl e \<Rightarrow> Inl e | Inr c \<Rightarrow> Inr (Some c)))))"


section \<open>Battles\<close>

text \<open>
  A battle card is an identifier and the rest of the card (\<^verbatim>\<open>...card\<close>), which the data
  source never reads. A stored battle keeps ObjectIds in its rosters; a decorated battle (what
  the data source returns) has them as strings and carries \<^verbatim>\<open>id\<close>, the string of
  \<^verbatim>\<open>_id\<close>. A field is \<open>None\<close> when the document does not have it.
\<close>

record ('i, 'c) battleCard =
  bc_id :: 'i
  bc_card :: 'c

record ('i, 'c, 'r) battle =
  battle_oid :: objectid
  state :: "string option"
  playerOneId :: "string option"
  playerTwoId :: "string option"
  playerOneCards :: "('i, 'c) battleCard list option"
  playerTwoCards :: "('i, 'c) battleCard list option"
  rounds :: "'r list option"
  winnerId :: "string option"

record ('i, 'c, 'r) decoratedBattle = "('i, 'c, 'r) battle" +
  battle_id :: string

text \<open>
  The fields an update may carry: the second argument of \<^verbatim>\<open>updateBattle\<close> (identifiers
  as strings) and the object handed to \<^verbatim>\<open>$set\<close> (identifiers as ObjectIds). \<open>None\<close> is
  a field left out.
\<close>

record ('i, 'c, 'r) battleUpdate =
  u_state :: "string option"
  u_playerOneCards :: "('i, 'c) battleCard list option"
  u_playerTwoCards :: "('i, 'c) battleCard list option"
  u_rounds :: "'r list option"
  u_winnerId :: "string option"

text \<open>
  Modelled from the spec: \<^verbatim>\<open>BattleState.REQUESTED\<close> and the terminal state, constants of
  the module \<^verbatim>\<open>enums/BattleState\<close>, which is not among the sources at hand. Section 4.3 of
  the specification names the states \<^verbatim>\<open>REQUESTED\<close>, \<^verbatim>\<open>ACTIVE\<close> and \<^verbatim>\<open>COMPLETED\<close>.
\<close>

definition REQUESTED :: string where
  "REQUESTED = ''REQUESTED''"

definition ACTIVE :: string where
  "ACTIVE = ''ACTIVE''"

definition COMPLETED :: string where
  "COMPLETED = ''COMPLETED''"

text \<open>ToBoolean on a string that may be missing: the empty string is falsy.\<close>

definition truthyString :: "string option \<Rightarrow> bool" where
  "truthyString v = (case v of None \<Rightarrow> False | Some s \<Rightarrow> s \<noteq> [])"

text \<open>\<^verbatim>\<open>_decorateBattleCard\<close> (lines 259 to 262) and \<^verbatim>\<open>_decorateBattle\<close> (lines 295 to 315).\<close>

definition decorateBattleCard :: "(objectid, 'c) battleCard \<Rightarrow> (string, 'c) battleCard" where
  "decorateBattleCard battleCard =
     \<lparr> bc_id = toHexString (bc_id battleCard), bc_card = bc_card battleCard \<rparr>"

definition decorateBattle :: "(objectid, 'c, 'r) battle \<Rightarrow> (string, 'c, 'r) decoratedBattle" where
  "decorateBattle b =
     \<lparr> battle_oid = battle_oid b,
       state = state b,
       playerOneId = playerOneId b,
       playerTwoId = playerTwoId b,
       playerOneCards = map_option (map decorateBattleCard) (playerOneCards b),
       playerTwoCards = map_option (map decorateBattleCard) (playerTwoCards b),
       rounds = rounds b,
       winnerId = winnerId b,
       battle_id = toHexString (battle_oid b) \<rparr>"

text \<open>
  \<^verbatim>\<open>insertOne\<close>: the server gives the document its \<^verbatim>\<open>_id\<close> and reports it as
  \<^verbatim>\<open>insertedId\<close>.
\<close>

definition insertOne :: "'d collection \<Rightarrow> (objectid \<Rightarrow> 'd) \<Rightarrow> 'd collection \<times> objectid option" where
  "insertOne db mk =
     (\<lparr> docs = docs db @ [mk (nextId db)], nextId = nextId db + 1 \<rparr>, Some (nextId db))"

text \<open>\<^verbatim>\<open>createBattle\<close> (lines 125 to 144).\<close>

definition createBattle ::
    "(objectid, 'c, 'r) battle collection \<Rightarrow> string option \<Rightarrow> string option
       \<Rightarrow> (objectid, 'c) battleCard list option
       \<Rightarrow> error + ((objectid, 'c, 'r) decoratedBattle \<times> (objectid, 'c, 'r) battle collection)" where
  "createBattle db p1 p2 p1Cards =
     (case insertOne db
             (\<lambda>i. \<lparr> battle_oid = i,
                    state = Some REQUESTED,
                    playerOneId = p1,
                    playerTwoId = p2,
                    playerOneCards = p1Cards,
                    playerTwoCards = None,
                    rounds = None,
                    winnerId = None \<rparr>) of
        (db', None) \<Rightarrow> Inl (Error ''Error creating battle.'')
      | (db', Some insertedId) \<Rightarrow>
          Inr (\<lparr> battle_oid = insertedId,
                 state = Some REQUESTED,
                 playerOneId = p1,
                 playerTwoId = p2,
                 playerOneCards = p1Cards,
                 playerTwoCards = None,
                 rounds = None,
                 winnerId = None,
                 battle_id = toHexString insertedId \<rparr>, db'))"

text \<open>\<^verbatim>\<open>getBattle\<close> (lines 96 to 100).\<close>

definition getBattle ::
    "(objectid, 'c, 'r) battle collection \<Rightarrow> string option
       \<Rightarrow> error + (string, 'c, 'r) decoratedBattle option" where
  "getBattle db i =
     (case i of
        None \<Rightarrow> Inr None
      | Some s \<Rightarrow>
          if s = [] then Inr None
          else (case ObjectId_new s of
                  Inl e \<Rightarrow> Inl e
                | Inr oid \<Rightarrow>
                    Inr (map_option decorateBattle (find (\<lambda>b. battle_oid b = oid) (docs db)))))"

text \<open>
  \<^verbatim>\<open>updateBattle\<close> (lines 196 to 231). Only the truthy fields of the update are set
  (an array is truthy, also when empty); the identifiers of the rosters are turned into
  ObjectIds; the write is one \<^verbatim>\<open>findOneAndUpdate\<close> whose filter is the \<^verbatim>\<open>_id\<close> alone,
  returning the document after the update, or \<^verbatim>\<open>null\<close> when no document matches.
\<close>

definition toObjectIds ::
    "(string, 'c) battleCard list option \<Rightarrow> error + (objectid, 'c) battleCard list option" where
  "toObjectIds cs =
     (case cs of
        None \<Rightarrow> Inr None
      | Some xs \<Rightarrow>
          (case map_js (\<lambda>x. case ObjectId_new (bc_id x) of
                               Inl e \<Rightarrow> Inl e
                             | Inr i \<Rightarrow> Inr \<lparr> bc_id = i, bc_card = bc_card x \<rparr>) xs of
             Inl e \<Rightarrow> Inl e
           | Inr ys \<Rightarrow> Inr (Some ys)))"

definition orElse :: "'a option \<Rightarrow> 'a option \<Rightarrow> 'a option" where
  "orElse new old = (case new of None \<Rightarrow> old | Some v \<Rightarrow> Some v)"

definition setBattle ::
    "(objectid, 'c, 'r) battleUpdate \<Rightarrow> (objectid, 'c, 'r) battle \<Rightarrow> (objectid, 'c, 'r) battle" where
  "setBattle u b =
     b\<lparr> state := orElse (u_state u) (state b),
        playerOneCards := orElse (u_playerOneCards u) (playerOneCards b),
        playerTwoCards := orElse (u_playerTwoCards u) (playerTwoCards b),
        rounds := orElse (u_rounds u) (rounds b),
        winnerId := orElse (u_winnerId u) (winnerId b) \<rparr>"

definition findOneAndUpdate ::
    "'d collection \<Rightarrow> ('d \<Rightarrow> bool) \<Rightarrow> ('d \<Rightarrow> 'd) \<Rightarrow> 'd option \<times> 'd collection" where
  "findOneAndUpdate db P f =
     (case find P (docs db) of
        None \<Rightarrow> (None, db)
      | Some d \<Rightarrow>
          (case updateFirst P f (docs db) of
             None \<Rightarrow> (None, db)
           | Some ds \<Rightarrow> (Some (f d), db\<lparr>docs := ds\<rparr>)))"

definition updateBattle ::
    "(objectid, 'c, 'r) battle collection \<Rightarrow> string \<Rightarrow> (string, 'c, 'r) battleUpdate
       \<Rightarrow> error + ((string, 'c, 'r) decoratedBattle \<times> (objectid, 'c, 'r) battle collection)" where
  "updateBattle db battleId u =
     (case toObjectIds (u_playerOneCards u) of
        Inl e \<Rightarrow> Inl e
      | Inr cards1 \<Rightarrow>
         (case toObjectIds (u_playerTwoCards u) of
            Inl e \<Rightarrow> Inl e
          | Inr cards2 \<Rightarrow>
             (case ObjectId_new battleId of
                Inl e \<Rightarrow> Inl e
              | Inr oid \<Rightarrow>
                 (case findOneAndUpdate db (\<lambda>b. battle_oid b = oid)
                         (setBattle
                            \<lparr> u_state = (if truthyString (u_state u) then u_state u else None),
                              u_playerOneCards = cards1,
                              u_playerTwoCards = cards2,
                              u_rounds = u_rounds u,
                              u_winnerId = (if truthyString (u_winnerId u) then u_winnerId u else None) \<rparr>) of
                    (None, db') \<Rightarrow> Inl (Error ''No battle found with the provided ID'')
                  | (Some updatedBattle, db') \<Rightarrow> Inr (decorateBattle updatedBattle, db')))))"

text \<open>
  \<^verbatim>\<open>getBattleCard\<close> (lines 233 to 257). The query selects the first battle with the
  identifier in one of its rosters; the card is then looked for in \<^verbatim>\<open>playerOneCards\<close>
  and, when it is not there, in \<^verbatim>\<open>playerTwoCards\<close>. Calling \<^verbatim>\<open>find\<close> on a roster the
  document does not have is a TypeError.
\<close>

definition rosterHas :: "objectid \<Rightarrow> (objectid, 'c) battleCard list option \<Rightarrow> bool" where
  "rosterHas oid r = (case r of None \<Rightarrow> False | Some cs \<Rightarrow> list_ex (\<lambda>c. bc_id c = oid) cs)"

definition getBattleCard ::
    "(objectid, 'c, 'r) battle collection \<Rightarrow> string option
       \<Rightarrow> error + (string, 'c) battleCard option" where
  "getBattleCard db battleCardId =
     (case battleCardId of
        None \<Rightarrow> Inr None
      | Some s \<Rightarrow>
          if s = [] then Inr None
          else (case ObjectId_new s of
                  Inl e \<Rightarrow> Inl e
                | Inr oid \<Rightarrow>
                   (case find (\<lambda>b. rosterHas oid (playerOneCards b) \<or> rosterHas oid (playerTwoCards b))
                           (docs db) of
                      None \<Rightarrow> Inl (Error ''No battle containing a battle card with the given id found'')
                    | Some b \<Rightarrow>
                       (case playerOneCards b of
                          None \<Rightarrow> Inl TypeError
                        | Some cs1 \<Rightarrow>
                           (case find (\<lambda>c. bc_id c = oid) cs1 of
                              Some battleCard \<Rightarrow> Inr (Some (decorateBattleCard battleCard))
                            | None \<Rightarrow>
                               (case playerTwoCards b of
                                  None \<Rightarrow> Inl TypeError
                                | Some cs2 \<Rightarrow>
                                   Inr (map_option decorateBattleCard
                                          (find (\<lambda>c. bc_id c = oid) cs2))))))))"

section \<open>Round resolution\<close>

text \<open>
  The data source of the server (\<^verbatim>\<open>server/server.js\<close>) stores and returns battles; the
  function that resolves a round lives in the GraphQL resolvers, which are not part of the
  sources at hand. The definitions of this section follow the wording of the specification
  (sections 3 and 4.4).
\<close>

text \<open>
  Modelled from the spec: the BattleCard of section 3, restricted to what round resolution
  reads: the identifier, the damage of the single canonical attack, the original
  \<^verbatim>\<open>hp\<close> (here \<open>baseHp\<close>) and the battle-scoped \<^verbatim>\<open>currentHp\<close>.
\<close>

record BattleCard =
  cardId :: string
  attackDamage :: int
  baseHp :: int
  currentHp :: int

datatype RoundWinner = SideA | SideB | Tie

text \<open>
  Modelled from the spec: the Round of section 3 (the two identifiers, the damage dealt each
  way, the local winner), together with the \<^verbatim>\<open>currentHp\<close> each card is left with and
  the derived \<^verbatim>\<open>eliminated\<close> flags.
\<close>

record RoundResult =
  cardA :: string
  cardB :: string
  damageAtoB :: int
  damageBtoA :: int
  hpA :: int
  hpB :: int
  eliminatedA :: bool
  eliminatedB :: bool
  winner :: RoundWinner

text \<open>
  Modelled from the spec: \<^verbatim>\<open>resolveRound(cardA, cardB)\<close> of section 4.4. Each card's attack
  damage is subtracted from the other card's \<^verbatim>\<open>currentHp\<close>, both from the pre-round
  values, clamped at 0; a side wins the round when it still has positive \<^verbatim>\<open>currentHp\<close>
  and its opponent does not; otherwise the round is a tie.
\<close>

definition resolveRound :: "BattleCard \<Rightarrow> BattleCard \<Rightarrow> RoundResult" where
  "resolveRound a b =
     (let hpA' = max 0 (currentHp a - attackDamage b);
          hpB' = max 0 (currentHp b - attackDamage a)
      in \<lparr> cardA = cardId a, cardB = cardId b,
           damageAtoB = attackDamage a, damageBtoA = attackDamage b,
           hpA = hpA', hpB = hpB',
           eliminatedA = (hpA' \<le> 0), eliminatedB = (hpB' \<le> 0),
           winner = (if 0 < hpA' \<and> \<not> 0 < hpB' then SideA
                     else if 0 < hpB' \<and> \<not> 0 < hpA' then SideB
                     else Tie) \<rparr>)"

text \<open>
  Modelled from the spec: the sequential alternative that section 4.4 rules out, in which
  the first card strikes first and the second card strikes back only if it survived. It is
  here only to be told apart from \<^const>\<open>resolveRound\<close>.
\<close>

definition resolveSequential :: "BattleCard \<Rightarrow> BattleCard \<Rightarrow> int \<times> int" where
  "resolveSequential a b =
     (let hpB' = max 0 (currentHp b - attackDamage a);
          hpA' = (if 0 < hpB' then max 0 (currentHp a - attackDamage b) else currentHp a)
      in (hpA', hpB'))"

fun swapWinner :: "RoundWinner \<Rightarrow> RoundWinner" where
  "swapWinner SideA = SideB"
| "swapWinner SideB = SideA"
| "swapWinner Tie = Tie"

definition swapSides :: "RoundResult \<Rightarrow> RoundResult" where
  "swapSides r =
     \<lparr> cardA = cardB r, cardB = cardA r,
       damageAtoB = damageBtoA r, damageBtoA = damageAtoB r,
       hpA = hpB r, hpB = hpA r,
       eliminatedA = eliminatedB r, eliminatedB = eliminatedA r,
       winner = swapWinner (winner r) \<rparr>"

definition cardX :: BattleCard where
  "cardX = \<lparr> cardId = ''X'', attackDamage = 20, baseHp = 60, currentHp = 60 \<rparr>"

definition cardY :: BattleCard where
  "cardY = \<lparr> cardId = ''Y'', attackDamage = 30, baseHp = 50, currentHp = 50 \<rparr>"


section \<open>Eligibility as the specification words it\<close>

text \<open>
  Section 3 of the specification: a raw catalogue record is eligible when its category is the
  creature category and it has at least one attack whose damage field is present and
  non-blank. These predicates read the record as data, without JavaScript's exceptions.
\<close>

definition fieldOf :: "json \<Rightarrow> jsstring \<Rightarrow> json option" where
  "fieldOf v p = (case v of JObj fs \<Rightarrow> map_of fs p | _ \<Rightarrow> None)"

definition nonBlankDamage :: "json \<Rightarrow> bool" where
  "nonBlankDamage a =
     (case fieldOf a (js ''damage'') of Some (JStr s) \<Rightarrow> trim s \<noteq> [] | _ \<Rightarrow> False)"

definition blankDamage :: "json \<Rightarrow> bool" where
  "blankDamage a =
     (case fieldOf a (js ''damage'') of Some (JStr s) \<Rightarrow> trim s = [] | _ \<Rightarrow> False)"

definition eligible :: "json \<Rightarrow> bool" where
  "eligible r \<longleftrightarrow>
     fieldOf r (js ''supertype'') = Some (JStr pokemon)
     \<and> (case fieldOf r (js ''attacks'') of Some (JArr as) \<Rightarrow> list_ex nonBlankDamage as | _ \<Rightarrow> False)"

text \<open>
  The shape of the records of the catalogue files: a record is an object (its property names
  distinct, as \<^verbatim>\<open>JSON.parse\<close> makes them) whose \<^verbatim>\<open>attacks\<close>, when present, is
  \<^verbatim>\<open>null\<close> or an array of objects, and the \<^verbatim>\<open>damage\<close> of an attack, when present, is
  \<^verbatim>\<open>null\<close> or a string.
\<close>

definition wellTypedAttack :: "json \<Rightarrow> bool" where
  "wellTypedAttack a =
     (case a of
        JObj fs \<Rightarrow>
          (case map_of fs (js ''damage'') of
             None \<Rightarrow> True | Some JNull \<Rightarrow> True | Some (JStr s) \<Rightarrow> True | _ \<Rightarrow> False)
      | _ \<Rightarrow> False)"

definition wellTypedRecord :: "json \<Rightarrow> bool" where
  "wellTypedRecord r =
     (case r of
        JObj fs \<Rightarrow>
          distinct (map fst fs) \<and>
          (case map_of fs (js ''attacks'') of
             None \<Rightarrow> True | Some JNull \<Rightarrow> True | Some (JArr as) \<Rightarrow> list_all wellTypedAttack as
           | _ \<Rightarrow> False)
      | _ \<Rightarrow> False)"

text \<open>The catalogue id of a record and the bulk operation of a record, read as data.\<close>

definition idOf :: "json \<Rightarrow> json" where
  "idOf r = bsonValue (fieldOf r (js ''id''))"

definition opOf :: "json \<Rightarrow> updateOne" where
  "opOf r = \<lparr> filter_id = idOf r, set_doc = r \<rparr>"


text \<open>The cards of a roster, with none for a roster the battle does not have.\<close>

definition rosterOf :: "('i, 'c) battleCard list option \<Rightarrow> ('i, 'c) battleCard list" where
  "rosterOf r = (case r of None \<Rightarrow> [] | Some cs \<Rightarrow> cs)"

text \<open>The decimal numeral of a number, as a string and as digits, most significant first.\<close>

fun digitsOf :: "nat \<Rightarrow> jsstring" where
  "digitsOf n = (if n < 10 then [48 + of_nat n] else digitsOf (n div 10) @ [48 + of_nat (n mod 10)])"

declare digitsOf.simps [simp del]

fun natDigits :: "nat \<Rightarrow> nat list" where
  "natDigits n = (if n < 10 then [n] else natDigits (n div 10) @ [n mod 10])"

declare natDigits.simps [simp del]
section \<open>Example data\<close>

text \<open>
  Records in the shape of the catalogue files: a creature card whose first attack has a blank
  damage, a trainer card, a record whose damage is a number, a record with a number for the
  damage of its first attack and a string for the second, a record whose damage has no
  digits, and a record whose first attack has no damage field.
\<close>

definition emptyCatalogue :: "cardDoc collection" where
  "emptyCatalogue = \<lparr> docs = [], nextId = 0 \<rparr>"

definition mkAttack :: "string \<Rightarrow> string \<Rightarrow> json" where
  "mkAttack n d = JObj [(js ''name'', JStr (js n)), (js ''damage'', JStr (js d))]"

definition pokemonFields :: "(jsstring \<times> json) list" where
  "pokemonFields =
     [(js ''id'', JStr (js ''base1-1'')), (js ''name'', JStr (js ''Alakazam'')),
      (js ''supertype'', JStr pokemon), (js ''level'', JStr (js ''42'')),
      (js ''hp'', JStr (js ''80'')),
      (js ''attacks'', JArr [mkAttack ''Damage Swap'' [], mkAttack ''Confuse Ray'' ''30'']),
      (js ''rarity'', JStr (js ''Rare Holo''))]"

definition pokemonRecord :: json where
  "pokemonRecord = JObj pokemonFields"

definition trainerRecord :: json where
  "trainerRecord =
     JObj [(js ''id'', JStr (js ''base1-70'')), (js ''name'', JStr (js ''Clefairy Doll'')),
           (js ''supertype'', JStr (js ''Trainer''))]"

definition malformedRecord :: json where
  "malformedRecord =
     JObj [(js ''id'', JStr (js ''base1-2'')), (js ''name'', JStr (js ''Blastoise'')),
           (js ''supertype'', JStr pokemon), (js ''hp'', JStr (js ''100'')),
           (js ''attacks'', JArr [JObj [(js ''name'', JStr (js ''Hydro Pump'')), (js ''damage'', JNum (js ''40''))]])]"

definition numberFirstRecord :: json where
  "numberFirstRecord =
     JObj [(js ''id'', JStr (js ''base1-5'')), (js ''name'', JStr (js ''Dugtrio'')),
           (js ''supertype'', JStr pokemon), (js ''hp'', JStr (js ''70'')),
           (js ''attacks'', JArr [JObj [(js ''name'', JStr (js ''Slash'')),
                                        (js ''damage'', JNum (js ''40''))],
                                  mkAttack ''Earthquake'' ''10''])]"

definition crypticRecord :: json where
  "crypticRecord =
     JObj [(js ''id'', JStr (js ''base1-3'')), (js ''name'', JStr (js ''Chansey'')),
           (js ''supertype'', JStr pokemon), (js ''hp'', JStr (js ''120'')),
           (js ''attacks'', JArr [mkAttack ''Double-edge'' ''?''])]"

definition gapFields :: "(jsstring \<times> json) list" where
  "gapFields =
     [(js ''id'', JStr (js ''base1-4'')), (js ''name'', JStr (js ''Charizard'')),
      (js ''supertype'', JStr pokemon), (js ''hp'', JStr (js ''120'')),
      (js ''attacks'', JArr [JObj [(js ''name'', JStr (js ''Energy Burn''))],
                             mkAttack ''Fire Spin'' ''100''])]"


text \<open>
  Battles for the examples: the rest of a battle card is its name, a round is a number. One
  collection holds a completed battle, one an active battle whose rounds are still empty, and
  one has a battle waiting for its opponent before an active battle.
\<close>

definition emptyBattles :: "(objectid, string, nat) battle collection" where
  "emptyBattles = \<lparr> docs = [], nextId = 1 \<rparr>"

definition completedBattle :: "(objectid, string, nat) battle" where
  "completedBattle =
     \<lparr> battle_oid = 1, state = Some COMPLETED,
       playerOneId = Some ''alice'', playerTwoId = Some ''bob'',
       playerOneCards = Some [\<lparr> bc_id = 0xA1, bc_card = ''Alakazam'' \<rparr>],
       playerTwoCards = Some [\<lparr> bc_id = 0xB1, bc_card = ''Blastoise'' \<rparr>],
       rounds = Some [0], winnerId = Some ''alice'' \<rparr>"

definition activeBattle :: "(objectid, string, nat) battle" where
  "activeBattle =
     \<lparr> battle_oid = 1, state = Some ACTIVE,
       playerOneId = Some ''alice'', playerTwoId = Some ''bob'',
       playerOneCards = Some [\<lparr> bc_id = 0xA1, bc_card = ''Alakazam'' \<rparr>],
       playerTwoCards = Some [\<lparr> bc_id = 0xB1, bc_card = ''Blastoise'' \<rparr>],
       rounds = Some [], winnerId = None \<rparr>"

definition requestedBattle :: "(objectid, string, nat) battle" where
  "requestedBattle =
     \<lparr> battle_oid = 2, state = Some REQUESTED,
       playerOneId = Some ''carol'', playerTwoId = Some ''dave'',
       playerOneCards = Some [\<lparr> bc_id = 0xC1, bc_card = ''Chansey'' \<rparr>,
                              \<lparr> bc_id = 0xC2, bc_card = ''Charizard'' \<rparr>],
       playerTwoCards = None,
       rounds = None, winnerId = None \<rparr>"

definition battleOne :: string where
  "battleOne = ''000000000000000000000001''"

definition roundUpdate :: "nat \<Rightarrow> (string, string, nat) battleUpdate" where
  "roundUpdate r =
     \<lparr> u_state = None, u_playerOneCards = None, u_playerTwoCards = None,
       u_rounds = Some [r], u_winnerId = None \<rparr>"

definition reopenUpdate :: "(string, string, nat) battleUpdate" where
  "reopenUpdate =
     \<lparr> u_state = Some ACTIVE, u_playerOneCards = None, u_playerTwoCards = None,
       u_rounds = None, u_winnerId = Some ''bob'' \<rparr>"
section \<open>Properties of the card catalogue\<close>

subsection \<open>The import filter\<close>

lemma trim_Nil [simp]: "trim [] = []"
  by (simp add: trim_def)

lemma importFilterAttack_sound: "importFilterAttack a = Inr b \<Longrightarrow> b = nonBlankDamage a"
  by (cases a) (auto simp: importFilterAttack_def nonBlankDamage_def fieldOf_def
      split: if_splits option.splits json.splits)

lemma some_js_sound:
  "some_js importFilterAttack as = Inr b \<Longrightarrow> b = list_ex nonBlankDamage as"
proof (induction as)
  case Nil
  then show ?case by simp
next
  case (Cons a as)
  then show ?case
    by (auto split: sum.splits if_splits dest: importFilterAttack_sound)
qed

lemma importFilter_sound: "importFilter r = Inr b \<Longrightarrow> b = eligible r"
  by (cases r)
     (auto simp: importFilter_def eligible_def fieldOf_def
           split: if_splits option.splits json.splits dest: some_js_sound)

lemma importFilterAttack_total:
  "wellTypedAttack a \<Longrightarrow> importFilterAttack a = Inr (nonBlankDamage a)"
  by (cases a)
     (auto simp: importFilterAttack_def nonBlankDamage_def fieldOf_def wellTypedAttack_def
           split: option.splits json.splits)

lemma some_js_total:
  "list_all wellTypedAttack as \<Longrightarrow> some_js importFilterAttack as = Inr (list_ex nonBlankDamage as)"
  by (induction as) (auto simp: importFilterAttack_total)

lemma importFilter_total:
  assumes "wellTypedRecord r"
  shows "importFilter r = Inr (eligible r)"
proof -
  from assms obtain fs where r: "r = JObj fs"
    by (cases r) (auto simp: wellTypedRecord_def)
  with assms have
    "case map_of fs (js ''attacks'') of
       None \<Rightarrow> True | Some JNull \<Rightarrow> True | Some (JArr as) \<Rightarrow> list_all wellTypedAttack as
     | _ \<Rightarrow> False"
    by (simp add: wellTypedRecord_def)
  then show ?thesis
    unfolding r
    by (auto simp: importFilter_def eligible_def fieldOf_def some_js_total
             split: option.splits json.splits)
qed

lemma filter_js_sound: "filter_js importFilter rs = Inr ys \<Longrightarrow> ys = filter eligible rs"
proof (induction rs arbitrary: ys)
  case Nil
  then show ?case by simp
next
  case (Cons r rs)
  then show ?case
    by (auto split: sum.splits if_splits dest: importFilter_sound)
qed

lemma filter_js_total:
  "list_all wellTypedRecord rs \<Longrightarrow> filter_js importFilter rs = Inr (filter eligible rs)"
  by (induction rs) (auto simp: importFilter_total)

lemma filter_js_raises:
  "r \<in> set rs \<Longrightarrow> importFilter r = Inl e \<Longrightarrow> \<exists>e'. filter_js importFilter rs = Inl e'"
  by (induction rs) (auto split: sum.splits)

lemma eligible_is_object: "eligible r \<Longrightarrow> \<exists>fs. r = JObj fs"
  by (cases r) (auto simp: eligible_def fieldOf_def)

lemma bulkOp_eligible: "eligible r \<Longrightarrow> bulkOp r = Inr (opOf r)"
  by (auto simp: bulkOp_def opOf_def idOf_def fieldOf_def dest!: eligible_is_object)

lemma map_js_bulkOp: "list_all eligible rs \<Longrightarrow> map_js bulkOp rs = Inr (map opOf rs)"
  by (induction rs) (auto simp: bulkOp_eligible)

lemma import_parsed:
  "filter_js importFilter rs = Inr ys \<Longrightarrow>
   importCardsFromFile db (Parsed (JArr rs)) =
     (case bulkWrite db (map opOf ys) of
        (db', Some e) \<Rightarrow> (db', ImportError e)
      | (db', None) \<Rightarrow> (db', Processed (length ys)))"
proof -
  assume a: "filter_js importFilter rs = Inr ys"
  then have "ys = filter eligible rs" by (rule filter_js_sound)
  then have "list_all eligible ys" by (simp add: list_all_iff)
  then have "map_js bulkOp ys = Inr (map opOf ys)" by (rule map_js_bulkOp)
  with a show ?thesis by (simp add: importCardsFromFile_def)
qed

text \<open>
  Claim C9, as stated, fails: a record whose damage is a number makes the filter throw, and
  the one \<^verbatim>\<open>try\<close> around the whole import then drops every record of the file, the
  well-formed ones included.
\<close>

theorem import_single_error_aborts_batch_counterexample:
  "importFilter malformedRecord = Inl TypeError
   \<and> importCardsFromFile emptyCatalogue (Parsed (JArr [malformedRecord, pokemonRecord]))
       = (emptyCatalogue, ImportError TypeError)
   \<and> importCardsFromFile emptyCatalogue (Parsed (JArr [pokemonRecord, malformedRecord]))
       = (emptyCatalogue, ImportError TypeError)
   \<and> map doc_fields (docs (fst (importCardsFromFile emptyCatalogue (Parsed (JArr [pokemonRecord])))))
       = [pokemonFields]"
  by code_simp

text \<open>
  Claim C9, amended. An exception raised by the filter on any record of a file ends the import
  of that file: nothing of the file is stored, one error is logged for the file, and the
  start-up loop goes on with the remaining files from the unchanged collection.
\<close>

theorem import_error_aborts_whole_file:
  assumes "r \<in> set rs" and "importFilter r = Inl e"
  shows "\<exists>e'. importCardsFromFile db (Parsed (JArr rs)) = (db, ImportError e')
           \<and> importAll db (Parsed (JArr rs) # files)
               = (fst (importAll db files), ImportError e' # snd (importAll db files))"
proof -
  from filter_js_raises [OF assms] obtain e' where "filter_js importFilter rs = Inl e'" ..
  then have 1: "importCardsFromFile db (Parsed (JArr rs)) = (db, ImportError e')"
    by (simp add: importCardsFromFile_def)
  then have "importAll db (Parsed (JArr rs) # files)
               = (fst (importAll db files), ImportError e' # snd (importAll db files))"
    by (simp add: case_prod_beta)
  with 1 show ?thesis by blast
qed

theorem import_error_aborts_whole_file_witness:
  "malformedRecord \<in> set [pokemonRecord, malformedRecord]
   \<and> importFilter malformedRecord = Inl TypeError
   \<and> importCardsFromFile emptyCatalogue (Parsed (JArr [pokemonRecord, malformedRecord]))
       = (emptyCatalogue, ImportError TypeError)
   \<and> importAll emptyCatalogue
         [Parsed (JArr [pokemonRecord, malformedRecord]), Parsed (JArr [pokemonRecord])]
       = (fst (importAll emptyCatalogue [Parsed (JArr [pokemonRecord])]),
          ImportError TypeError # snd (importAll emptyCatalogue [Parsed (JArr [pokemonRecord])]))"
proof -
  have a: "malformedRecord \<in> set [pokemonRecord, malformedRecord]" by simp
  have b: "importFilter malformedRecord = Inl TypeError" by code_simp
  from import_error_aborts_whole_file [OF a b, of emptyCatalogue "[Parsed (JArr [pokemonRecord])]"]
  obtain e' where
    c: "importCardsFromFile emptyCatalogue (Parsed (JArr [pokemonRecord, malformedRecord]))
       = (emptyCatalogue, ImportError e')"
    and d: "importAll emptyCatalogue
           [Parsed (JArr [pokemonRecord, malformedRecord]), Parsed (JArr [pokemonRecord])]
         = (fst (importAll emptyCatalogue [Parsed (JArr [pokemonRecord])]),
            ImportError e' # snd (importAll emptyCatalogue [Parsed (JArr [pokemonRecord])]))"
    by blast
  have "importCardsFromFile emptyCatalogue (Parsed (JArr [pokemonRecord, malformedRecord]))
             = (emptyCatalogue, ImportError TypeError)" by code_simp
  with c have "e' = TypeError" by simp
  with a b c d show ?thesis by (simp only: simp_thms)
qed

subsection \<open>parseInt on decimal numerals\<close>

lemma small_cases: "(d::nat) < 10 \<Longrightarrow> d \<in> {0, 1, 2, 3, 4, 5, 6, 7, 8, 9}"
  by auto

lemma digitVal_decimal: "d < 10 \<Longrightarrow> digitVal 10 (48 + of_nat d) = Some d"
  by (drule small_cases) (elim insertE emptyE; simp add: digitVal_def)

lemma digit_char_plain:
  "d < 10 \<Longrightarrow> \<not> isWhiteSpace (48 + of_nat d) \<and> (48 + of_nat d :: jschar) \<noteq> 45
     \<and> (48 + of_nat d :: jschar) \<noteq> 43 \<and> ((48 + of_nat d :: jschar) = 48 \<longleftrightarrow> d = 0)"
  by (drule small_cases) (elim insertE emptyE; simp add: isWhiteSpace_def)

lemma digitsPrefix_digitsOf:
  "digitsPrefix 10 (digitsOf n @ rest) = natDigits n @ digitsPrefix 10 rest"
proof (induction n arbitrary: rest rule: digitsOf.induct)
  case (1 n)
  show ?case
  proof (cases "n < 10")
    case True
    then show ?thesis
      by (simp add: digitsOf.simps [of n] natDigits.simps [of n] digitVal_decimal)
  next
    case False
    have "digitsPrefix 10 (digitsOf (n div 10) @ ((48 + of_nat (n mod 10)) # rest))
            = natDigits (n div 10) @ digitsPrefix 10 ((48 + of_nat (n mod 10)) # rest)"
      using False by (intro "1.IH") simp
    with False show ?thesis
      by (simp add: digitsOf.simps [of n] natDigits.simps [of n] digitVal_decimal)
  qed
qed

lemma foldl_natDigits: "foldl (\<lambda>a x. a * 10 + x) 0 (natDigits n) = n"
proof (induction n rule: natDigits.induct)
  case (1 n)
  show ?case
  proof (cases "n < 10")
    case True
    then show ?thesis by (simp add: natDigits.simps [of n])
  next
    case False
    with 1 show ?thesis by (simp add: natDigits.simps [of n])
  qed
qed

lemma natDigits_not_Nil: "natDigits n \<noteq> []"
  by (simp add: natDigits.simps [of n])

lemma digitsOf_head:
  "\<exists>d cs. digitsOf n = (48 + of_nat d) # cs \<and> d < 10 \<and> (d = 0 \<longrightarrow> n = 0 \<and> cs = [])"
proof (induction n rule: digitsOf.induct)
  case (1 n)
  show ?case
  proof (cases "n < 10")
    case True
    then have "digitsOf n = (48 + of_nat n) # [] \<and> n < 10 \<and> (n = 0 \<longrightarrow> n = 0 \<and> [] = ([] :: jsstring))"
      by (simp add: digitsOf.simps [of n])
    then show ?thesis by blast
  next
    case False
    then obtain d cs where h: "digitsOf (n div 10) = (48 + of_nat d) # cs" "d < 10"
      "d = 0 \<longrightarrow> n div 10 = 0 \<and> cs = []"
      using "1.IH" by auto
    from False have "n div 10 \<noteq> 0" by simp
    with h have "d \<noteq> 0" by auto
    with h False have "digitsOf n = (48 + of_nat d) # (cs @ [48 + of_nat (n mod 10)]) \<and> d < 10
       \<and> (d = 0 \<longrightarrow> n = 0 \<and> cs @ [48 + of_nat (n mod 10)] = ([] :: jsstring))"
      by (simp add: digitsOf.simps [of n])
    then show ?thesis by blast
  qed
qed

lemma bitlen_le: "n < 2 ^ k \<Longrightarrow> bitlen n \<le> k"
proof (induction k arbitrary: n)
  case 0
  then show ?case by (simp add: bitlen.simps [of 0])
next
  case (Suc k)
  from Suc.prems have "n div 2 < 2 ^ k" by simp
  then have "bitlen (n div 2) \<le> k" by (rule Suc.IH)
  then show ?case by (simp add: bitlen.simps [of n])
qed

lemma toNumber_exact: "n < 2 ^ 53 \<Longrightarrow> toNumber False n = Num (int n)"
  using bitlen_le [of n 53] by (simp add: toNumber_def roundToDouble_def)

lemma parseIntString_numeral:
  assumes "digitsPrefix 10 rest = []"
    and "n = 0 \<longrightarrow> (\<forall>c cs. rest = c # cs \<longrightarrow> c \<noteq> 120 \<and> c \<noteq> 88)"
  shows "parseIntString (digitsOf n @ rest) = toNumber False n"
proof -
  obtain d cs where h: "digitsOf n = (48 + of_nat d) # cs" "d < 10" "d = 0 \<longrightarrow> n = 0 \<and> cs = []"
    using digitsOf_head by blast
  let ?c = "48 + of_nat d :: jschar"
  from h(2) have c: "\<not> isWhiteSpace ?c" "?c \<noteq> 45" "?c \<noteq> 43" "?c = 48 \<longleftrightarrow> d = 0"
    using digit_char_plain [of d] by auto
  have ws: "dropWhile isWhiteSpace (digitsOf n @ rest) = digitsOf n @ rest"
    using h(1) c(1) by simp
  have sg: "stripSign (digitsOf n @ rest) = (False, digitsOf n @ rest)"
    using h(1) c(2,3) by simp
  have px: "stripPrefix (digitsOf n @ rest) = (10, digitsOf n @ rest)"
  proof (cases "d = 0")
    case True
    with h have "digitsOf n @ rest = 48 # rest" "n = 0" by auto
    with assms(2) show ?thesis by (cases rest) auto
  next
    case False
    with c(4) have "?c \<noteq> 48" by simp
    with h(1) show ?thesis by (cases "cs @ rest") auto
  qed
  have dp: "digitsPrefix 10 (digitsOf n @ rest) = natDigits n"
    using assms(1) by (simp add: digitsPrefix_digitsOf)
  obtain a l where al: "natDigits n = a # l"
    using natDigits_not_Nil [of n] by (cases "natDigits n") auto
  have "foldl (\<lambda>a x. a * 10 + x) 0 (a # l) = n"
    using foldl_natDigits [of n] al by simp
  then have "parseDigits 10 (digitsOf n @ rest) = Some n"
    by (simp add: parseDigits_def dp al)
  with ws sg px show ?thesis
    by (simp add: parseIntString_def)
qed

lemma parseIntString_decimal:
  assumes "digitsPrefix 10 rest = []"
    and "n = 0 \<longrightarrow> (\<forall>c cs. rest = c # cs \<longrightarrow> c \<noteq> 120 \<and> c \<noteq> 88)"
    and "n < 2 ^ 53"
  shows "parseIntString (digitsOf n @ rest) = Num (int n)"
  using parseIntString_numeral [OF assms(1,2)] toNumber_exact [OF assms(3)] by simp

lemma parseIntString_no_digit:
  assumes "dropWhile isWhiteSpace s = c # cs" and "c \<noteq> 45" and "c \<noteq> 43"
    and "digitVal 10 c = None"
  shows "parseIntString s = NaN"
proof -
  from assms(4) have "c \<noteq> 48" by (auto simp: digitVal_def)
  then have "stripPrefix (c # cs) = (10, c # cs)" by (cases cs) auto
  with assms show ?thesis
    by (simp add: parseIntString_def parseDigits_def)
qed

text \<open>
  Beyond \<open>2 ^ 53\<close> the result is the nearest double, not the numeral's value; a number
  that JavaScript prints with an exponent parses to its leading digits; the prefix
  \<^verbatim>\<open>0x\<close> is read as hexadecimal.
\<close>

lemma parseInt_rounds_to_double:
  "parseIntString (js ''9007199254740993'') = Num 9007199254740992"
  by (simp add: parseIntString_def js_def isWhiteSpace_def parseDigits_def digitVal_def
        toNumber_def roundToDouble_def bitlen.simps Let_def)

lemma parseInt_of_printed_number:
  "parseInt (Some (JNum (js ''1e+21''))) = Num 1 \<and> parseInt (Some (JNum (js ''12.5''))) = Num 12"
  by (simp add: parseInt_def ToString_def parseIntString_def js_def isWhiteSpace_def
        parseDigits_def digitVal_def toNumber_def roundToDouble_def bitlen.simps Let_def)

lemma parseInt_hexadecimal:
  "parseIntString (js ''0x1A'') = Num 26 \<and> parseIntString (js ''-0'') = NegZero"
  by (simp add: parseIntString_def js_def isWhiteSpace_def parseDigits_def digitVal_def
        toNumber_def roundToDouble_def bitlen.simps Let_def)
subsection \<open>Decoration\<close>

lemma decorateAttackValid_True: "nonBlankDamage a \<Longrightarrow> decorateAttackValid a = Inr True"
  by (cases a) (auto simp: decorateAttackValid_def nonBlankDamage_def fieldOf_def
      split: option.splits json.splits)

lemma decorateAttackValid_False: "blankDamage a \<Longrightarrow> decorateAttackValid a = Inr False"
  by (cases a) (auto simp: decorateAttackValid_def blankDamage_def fieldOf_def
      split: option.splits json.splits)

lemma decorateAttackValid_Inr:
  "decorateAttackValid a = Inr b \<Longrightarrow> (if b then nonBlankDamage a else blankDamage a)"
  by (cases a) (auto simp: decorateAttackValid_def nonBlankDamage_def blankDamage_def fieldOf_def
      split: option.splits json.splits)

lemma decorateAttackValid_TypeError:
  "fieldOf a (js ''damage'') = None \<Longrightarrow> decorateAttackValid a = Inl TypeError"
  by (cases a) (auto simp: decorateAttackValid_def fieldOf_def)

lemma find_js_first:
  "list_all blankDamage pre \<Longrightarrow> nonBlankDamage a \<Longrightarrow>
   find_js decorateAttackValid (pre @ a # post) = Inr (Some a)"
  by (induction pre) (auto simp: decorateAttackValid_True decorateAttackValid_False)

lemma find_js_Some:
  "find_js decorateAttackValid as = Inr (Some a) \<Longrightarrow>
   \<exists>pre post. as = pre @ a # post \<and> list_all blankDamage pre \<and> nonBlankDamage a"
proof (induction as)
  case Nil
  then show ?case by simp
next
  case (Cons x as)
  show ?case
  proof (cases "decorateAttackValid x")
    case (Inl e)
    with Cons.prems show ?thesis by simp
  next
    case (Inr b)
    show ?thesis
    proof (cases b)
      case True
      with Inr Cons.prems have "x = a" by simp
      moreover from Inr True have "nonBlankDamage a"
        using decorateAttackValid_Inr [of x True] \<open>x = a\<close> by simp
      ultimately have "x # as = [] @ a # as \<and> list_all blankDamage [] \<and> nonBlankDamage a"
        by simp
      then show ?thesis by blast
    next
      case False
      with Inr Cons.prems have "find_js decorateAttackValid as = Inr (Some a)" by simp
      then obtain pre post where
        p: "as = pre @ a # post" "list_all blankDamage pre" "nonBlankDamage a"
        using Cons.IH by blast
      from Inr False have "blankDamage x"
        using decorateAttackValid_Inr [of x False] by simp
      with p have "x # as = (x # pre) @ a # post \<and> list_all blankDamage (x # pre) \<and> nonBlankDamage a"
        by simp
      then show ?thesis by blast
    qed
  qed
qed

lemma decorateCard_selected:
  assumes "map_of (doc_fields d) (js ''attacks'') = Some (JArr as)"
    and "find_js decorateAttackValid as = Inr (Some a)"
    and "fieldOf a (js ''damage'') = Some (JStr s)"
  shows "decorateCard d =
     Inr \<lparr> card_id = toHexString (doc_id d),
           card_name = map_of (doc_fields d) (js ''name''),
           level = parseInt (map_of (doc_fields d) (js ''level'')),
           hp = parseInt (map_of (doc_fields d) (js ''hp'')),
           attack = \<lparr> name = fieldOf a (js ''name''), damage = parseIntString s \<rparr>,
           rarity = map_of (doc_fields d) (js ''rarity''),
           images = map_of (doc_fields d) (js ''images'') \<rparr>"
proof -
  from assms(3) obtain fs where a: "a = JObj fs"
    by (cases a) (auto simp: fieldOf_def)
  with assms(3) have "getProp (Some a) (js ''damage'') = Inr (Some (JStr s))"
    and "getProp (Some a) (js ''name'') = Inr (fieldOf a (js ''name''))"
    by (simp_all add: fieldOf_def)
  with assms(1,2) show ?thesis
    by (simp add: decorateCard_def parseInt_def ToString_def)
qed

lemma nonBlankDamage_field:
  "nonBlankDamage a \<longleftrightarrow> (\<exists>s. fieldOf a (js ''damage'') = Some (JStr s) \<and> trim s \<noteq> [])"
  by (auto simp: nonBlankDamage_def split: option.splits json.splits)


lemma decorateCard_Inr_selected:
  assumes "decorateCard d = Inr c"
  shows "\<exists>pre a post s.
           map_of (doc_fields d) (js ''attacks'') = Some (JArr (pre @ a # post))
           \<and> list_all blankDamage pre
           \<and> fieldOf a (js ''damage'') = Some (JStr s) \<and> trim s \<noteq> []
           \<and> attack c = \<lparr> name = fieldOf a (js ''name''), damage = parseIntString s \<rparr>"
proof -
  from assms obtain as where as: "map_of (doc_fields d) (js ''attacks'') = Some (JArr as)"
    by (auto simp: decorateCard_def split: option.splits json.splits)
  with assms obtain a where a: "find_js decorateAttackValid as = Inr (Some a)"
    by (auto simp: decorateCard_def split: sum.splits option.splits)
  then obtain pre post where
    p: "as = pre @ a # post" "list_all blankDamage pre" "nonBlankDamage a"
    using find_js_Some by blast
  then obtain s where s: "fieldOf a (js ''damage'') = Some (JStr s)" "trim s \<noteq> []"
    by (auto simp: nonBlankDamage_field)
  from as a s(1) have "attack c = \<lparr> name = fieldOf a (js ''name''), damage = parseIntString s \<rparr>"
    using decorateCard_selected [of d as a s] assms by simp
  with as p s show ?thesis by blast
qed

text \<open>
  Claim C5, as stated, fails: a record whose only damage is \<^verbatim>\<open>?\<close> is eligible and is
  stored, and its decorated attack has damage \<^verbatim>\<open>NaN\<close>, which is not an integer.
\<close>

theorem decorateCard_damage_not_integer_counterexample:
  "eligible crypticRecord
   \<and> importFilter crypticRecord = Inr True
   \<and> getCards (fst (importCardsFromFile emptyCatalogue (Parsed (JArr [crypticRecord]))))
       = Inr [\<lparr> card_id = ''000000000000000000000000'',
                card_name = Some (JStr (js ''Chansey'')),
                level = NaN, hp = Num 120,
                attack = \<lparr> name = Some (JStr (js ''Double-edge'')), damage = NaN \<rparr>,
                rarity = None, images = None \<rparr>]"
  by code_simp

text \<open>
  Claim C5, amended. When every attack before the first one with a non-blank damage has a
  string damage, \<^verbatim>\<open>_decorateCard\<close> returns a card with exactly one attack: the name of
  that first attack and \<^verbatim>\<open>parseInt\<close> of its damage field; the attacks before and after
  it do not appear in the card. When the field is the decimal numeral of \<open>n\<close> followed by
  nothing or by a character that is not a digit (and, after a lone \<^verbatim>\<open>0\<close>, not
  \<^verbatim>\<open>x\<close> or \<^verbatim>\<open>X\<close>, which starts a hexadecimal literal), the damage is the double
  nearest to \<open>n\<close>: the integer \<open>n\<close> itself when \<open>n < 2 ^ 53\<close> (as for \<^verbatim>\<open>30\<close> or
  \<^verbatim>\<open>20+\<close>). The damage is \<^verbatim>\<open>NaN\<close> when the field starts, after white space, with a
  character that is neither a sign nor a digit.
\<close>

theorem decorateCard_first_non_blank_attack:
  assumes "map_of (doc_fields d) (js ''attacks'') = Some (JArr (pre @ a # post))"
    and "list_all blankDamage pre"
    and "fieldOf a (js ''damage'') = Some (JStr s)"
    and "trim s \<noteq> []"
  shows "decorateCard d =
     Inr \<lparr> card_id = toHexString (doc_id d),
           card_name = map_of (doc_fields d) (js ''name''),
           level = parseInt (map_of (doc_fields d) (js ''level'')),
           hp = parseInt (map_of (doc_fields d) (js ''hp'')),
           attack = \<lparr> name = fieldOf a (js ''name''), damage = parseIntString s \<rparr>,
           rarity = map_of (doc_fields d) (js ''rarity''),
           images = map_of (doc_fields d) (js ''images'') \<rparr>
     \<and> (\<forall>n rest. s = digitsOf n @ rest \<and> digitsPrefix 10 rest = []
            \<and> (n = 0 \<longrightarrow> (\<forall>c cs. rest = c # cs \<longrightarrow> c \<noteq> 120 \<and> c \<noteq> 88))
          \<longrightarrow> parseIntString s = toNumber False n
              \<and> (n < 2 ^ 53 \<longrightarrow> parseIntString s = Num (int n)))
     \<and> (\<forall>c cs. dropWhile isWhiteSpace s = c # cs \<and> c \<noteq> 45 \<and> c \<noteq> 43
            \<and> digitVal 10 c = None
          \<longrightarrow> parseIntString s = NaN)"
proof -
  from assms(3,4) have "nonBlankDamage a"
    by (auto simp: nonBlankDamage_field)
  with assms(2) have f: "find_js decorateAttackValid (pre @ a # post) = Inr (Some a)"
    by (rule find_js_first)
  have A: "decorateCard d =
     Inr \<lparr> card_id = toHexString (doc_id d),
           card_name = map_of (doc_fields d) (js ''name''),
           level = parseInt (map_of (doc_fields d) (js ''level'')),
           hp = parseInt (map_of (doc_fields d) (js ''hp'')),
           attack = \<lparr> name = fieldOf a (js ''name''), damage = parseIntString s \<rparr>,
           rarity = map_of (doc_fields d) (js ''rarity''),
           images = map_of (doc_fields d) (js ''images'') \<rparr>"
    by (rule decorateCard_selected [OF assms(1) f assms(3)])
  have B: "\<forall>n rest. s = digitsOf n @ rest \<and> digitsPrefix 10 rest = []
            \<and> (n = 0 \<longrightarrow> (\<forall>c cs. rest = c # cs \<longrightarrow> c \<noteq> 120 \<and> c \<noteq> 88))
          \<longrightarrow> parseIntString s = toNumber False n
              \<and> (n < 2 ^ 53 \<longrightarrow> parseIntString s = Num (int n))"
  proof (intro allI impI)
    fix n rest
    assume h: "s = digitsOf n @ rest \<and> digitsPrefix 10 rest = []
            \<and> (n = 0 \<longrightarrow> (\<forall>c cs. rest = c # cs \<longrightarrow> c \<noteq> 120 \<and> c \<noteq> 88))"
    from h have 1: "s = digitsOf n @ rest" by (rule conjunct1)
    from h have 2: "digitsPrefix 10 rest = []" by (rule conjunct2 [THEN conjunct1])
    from h have 3: "n = 0 \<longrightarrow> (\<forall>c cs. rest = c # cs \<longrightarrow> c \<noteq> 120 \<and> c \<noteq> 88)"
      by (rule conjunct2 [THEN conjunct2])
    show "parseIntString s = toNumber False n
              \<and> (n < 2 ^ 53 \<longrightarrow> parseIntString s = Num (int n))"
      unfolding 1
      using parseIntString_numeral [OF 2 3] parseIntString_decimal [OF 2 3] by simp
  qed
  have C: "\<forall>c cs. dropWhile isWhiteSpace s = c # cs \<and> c \<noteq> 45 \<and> c \<noteq> 43
            \<and> digitVal 10 c = None
          \<longrightarrow> parseIntString s = NaN"
  proof (intro allI impI)
    fix c cs
    assume h: "dropWhile isWhiteSpace s = c # cs \<and> c \<noteq> 45 \<and> c \<noteq> 43 \<and> digitVal 10 c = None"
    from h have 1: "dropWhile isWhiteSpace s = c # cs" by (rule conjunct1)
    from h have 2: "c \<noteq> 45" by (rule conjunct2 [THEN conjunct1])
    from h have 3: "c \<noteq> 43" by (rule conjunct2 [THEN conjunct2, THEN conjunct1])
    from h have 4: "digitVal 10 c = None" by (rule conjunct2 [THEN conjunct2, THEN conjunct2])
    show "parseIntString s = NaN" by (rule parseIntString_no_digit [OF 1 2 3 4])
  qed
  from A B C show ?thesis by (intro conjI)
qed

theorem decorateCard_first_non_blank_attack_witness:
  "map_of (doc_fields \<lparr> doc_id = 7, doc_fields = pokemonFields \<rparr>) (js ''attacks'')
     = Some (JArr ([mkAttack ''Damage Swap'' []] @ mkAttack ''Confuse Ray'' ''30'' # []))
   \<and> list_all blankDamage [mkAttack ''Damage Swap'' []]
   \<and> fieldOf (mkAttack ''Confuse Ray'' ''30'') (js ''damage'') = Some (JStr (js ''30''))
   \<and> trim (js ''30'') \<noteq> []
   \<and> js ''30'' = digitsOf 30 @ [] \<and> (30::nat) < 2 ^ 53
   \<and> map_sum id attack (decorateCard \<lparr> doc_id = 7, doc_fields = pokemonFields \<rparr>)
       = Inr \<lparr> name = Some (JStr (js ''Confuse Ray'')), damage = Num 30 \<rparr>"
proof -
  have a: "map_of (doc_fields \<lparr> doc_id = 7, doc_fields = pokemonFields \<rparr>) (js ''attacks'')
     = Some (JArr ([mkAttack ''Damage Swap'' []] @ mkAttack ''Confuse Ray'' ''30'' # []))"
    by code_simp
  have b: "list_all blankDamage [mkAttack ''Damage Swap'' []]" by code_simp
  have c: "fieldOf (mkAttack ''Confuse Ray'' ''30'') (js ''damage'') = Some (JStr (js ''30''))"
    by code_simp
  have d: "trim (js ''30'') \<noteq> []" by code_simp
  have e: "js ''30'' = digitsOf 30 @ []" by code_simp
  have f: "fieldOf (mkAttack ''Confuse Ray'' ''30'') (js ''name'') = Some (JStr (js ''Confuse Ray''))"
    by code_simp
  note t = decorateCard_first_non_blank_attack [OF a b c d]
  have lt: "(30::nat) < 2 ^ 53" by simp
  have pr: "js ''30'' = digitsOf 30 @ [] \<and> digitsPrefix 10 [] = []
      \<and> ((30::nat) = 0 \<longrightarrow> (\<forall>c cs. ([]::jsstring) = c # cs \<longrightarrow> c \<noteq> 120 \<and> c \<noteq> 88))"
    using e by simp
  note k = t [THEN conjunct2, THEN conjunct1, THEN spec, THEN spec, THEN mp, OF pr]
  from k [THEN conjunct2, THEN mp, OF lt]
  have g: "parseIntString (js ''30'') = Num 30" by simp
  from t have "map_sum id attack (decorateCard \<lparr> doc_id = 7, doc_fields = pokemonFields \<rparr>)
       = Inr \<lparr> name = fieldOf (mkAttack ''Confuse Ray'' ''30'') (js ''name''),
               damage = parseIntString (js ''30'') \<rparr>"
    by (elim conjE) simp
  with f g have "map_sum id attack (decorateCard \<lparr> doc_id = 7, doc_fields = pokemonFields \<rparr>)
       = Inr \<lparr> name = Some (JStr (js ''Confuse Ray'')), damage = Num 30 \<rparr>"
    by simp
  moreover have "(30::nat) < 2 ^ 53" by simp
  ultimately show ?thesis using a b c d e by (simp only: simp_thms)
qed

subsection \<open>Stored documents\<close>

lemma map_of_setField: "map_of (setField k v fs) k' = (if k' = k then Some v else map_of fs k')"
  by (induction fs) auto

lemma map_of_setFields:
  "distinct (map fst new) \<Longrightarrow>
   map_of (setFields old new) k = (case map_of new k of Some v \<Rightarrow> Some v | None \<Rightarrow> map_of old k)"
proof (induction new arbitrary: old)
  case Nil
  then show ?case by (simp add: setFields_def)
next
  case (Cons p new)
  obtain k1 v1 where p: "p = (k1, v1)" by (cases p)
  from Cons.prems p have d: "distinct (map fst new)" and n: "map_of new k1 = None"
    by (auto simp: map_of_eq_None_iff)
  have "setFields old (p # new) = setFields (setField k1 v1 old) new"
    by (simp add: setFields_def p)
  then show ?case
    using Cons.IH [OF d, of "setField k1 v1 old"] n
    by (auto simp: p map_of_setField split: option.splits)
qed

lemma updateFirst_Some:
  "updateFirst P f ds = Some ds' \<Longrightarrow> \<exists>d\<in>set ds. P d \<and> f d \<in> set ds'"
proof (induction ds arbitrary: ds')
  case Nil
  then show ?case by simp
next
  case (Cons d ds)
  then show ?case by (fastforce split: if_splits option.splits)
qed

lemma upsertOne_stores:
  assumes "distinct (map fst fs)"
  shows "\<exists>db'. upsertOne db (opOf (JObj fs)) = Inr db'
          \<and> (\<exists>d\<in>set (docs db'). \<forall>k v. map_of fs k = Some v \<longrightarrow> map_of (doc_fields d) k = Some v)"
proof (cases "updateFirst (idMatches (filter_id (opOf (JObj fs))))
                (\<lambda>d. d\<lparr>doc_fields := setFields (doc_fields d) fs\<rparr>) (docs db)")
  case None
  then show ?thesis
    using assms by (simp add: upsertOne_def opOf_def idOf_def map_of_setFields)
next
  case (Some ds)
  then obtain d where "d\<lparr>doc_fields := setFields (doc_fields d) fs\<rparr> \<in> set ds"
    using updateFirst_Some by fastforce
  with Some show ?thesis
    using assms by (auto simp: upsertOne_def opOf_def idOf_def map_of_setFields intro!: bexI)
qed

lemma getCards_raises:
  "d \<in> set ds \<Longrightarrow> decorateCard d = Inl e \<Longrightarrow> \<exists>e'. map_js decorateCard ds = Inl e'"
  by (induction ds) (auto split: sum.splits)

text \<open>
  Claim C10. The filter tests that a damage is present before trimming it; \<^verbatim>\<open>_decorateCard\<close>
  does not. So a record that the filter accepts and whose first attack has no damage field
  is stored by \<^verbatim>\<open>importCardsFromFile\<close>, and \<^verbatim>\<open>_decorateCard\<close> throws a TypeError on
  the stored document; \<^verbatim>\<open>getCards\<close> then fails, and so does \<^verbatim>\<open>getCard\<close> for that
  document.
\<close>

theorem accepted_record_makes_decorateCard_throw:
  assumes "distinct (map fst fs)"
    and "map_of fs (js ''attacks'') = Some (JArr (a # as))"
    and "fieldOf a (js ''damage'') = None"
    and "importFilter (JObj fs) = Inr True"
  shows "\<exists>db' d. importCardsFromFile db (Parsed (JArr [JObj fs])) = (db', Processed 1)
           \<and> d \<in> set (docs db')
           \<and> map_of (doc_fields d) (js ''attacks'') = Some (JArr (a # as))
           \<and> decorateCard d = Inl TypeError
           \<and> (\<exists>e. getCards db' = Inl e)
           \<and> (\<forall>s. ObjectId_new s = Inr (doc_id d)
                    \<and> find (\<lambda>x. doc_id x = doc_id d) (docs db') = Some d
                  \<longrightarrow> getCard db' (Some s) = Inl TypeError)"
proof -
  obtain db' d where u: "upsertOne db (opOf (JObj fs)) = Inr db'"
    and d: "d \<in> set (docs db')"
    and k: "\<forall>k v. map_of fs k = Some v \<longrightarrow> map_of (doc_fields d) k = Some v"
    using upsertOne_stores [OF assms(1)] by blast
  from assms(4) have "filter_js importFilter [JObj fs] = Inr [JObj fs]" by simp
  then have i: "importCardsFromFile db (Parsed (JArr [JObj fs])) = (db', Processed 1)"
    using u by (simp add: import_parsed bulkWrite_def)
  from k assms(2) have at: "map_of (doc_fields d) (js ''attacks'') = Some (JArr (a # as))"
    by simp
  have "decorateAttackValid a = Inl TypeError"
    using assms(3) by (rule decorateAttackValid_TypeError)
  with at have t: "decorateCard d = Inl TypeError"
    by (simp add: decorateCard_def)
  with d have g: "\<exists>e. getCards db' = Inl e"
    unfolding getCards_def by (rule getCards_raises)
  have c: "getCard db' (Some s) = Inl TypeError"
    if "ObjectId_new s = Inr (doc_id d)"
      and "find (\<lambda>x. doc_id x = doc_id d) (docs db') = Some d" for s
  proof -
    from that(1) have "s \<noteq> []"
      by (auto simp: ObjectId_new_def split: if_splits)
    with that t show ?thesis
      by (simp add: getCard_def)
  qed
  from i d at t g c show ?thesis by blast
qed

theorem accepted_record_makes_decorateCard_throw_witness:
  "distinct (map fst gapFields)
   \<and> map_of gapFields (js ''attacks'')
       = Some (JArr (JObj [(js ''name'', JStr (js ''Energy Burn''))] # [mkAttack ''Fire Spin'' ''100'']))
   \<and> fieldOf (JObj [(js ''name'', JStr (js ''Energy Burn''))]) (js ''damage'') = None
   \<and> nonBlankDamage (mkAttack ''Fire Spin'' ''100'')
   \<and> importFilter (JObj gapFields) = Inr True
   \<and> (\<exists>db' d. importCardsFromFile emptyCatalogue (Parsed (JArr [JObj gapFields])) = (db', Processed 1)
           \<and> d \<in> set (docs db') \<and> decorateCard d = Inl TypeError
           \<and> (\<exists>e. getCards db' = Inl e))"
proof -
  have a: "distinct (map fst gapFields)" by code_simp
  have b: "map_of gapFields (js ''attacks'')
       = Some (JArr (JObj [(js ''name'', JStr (js ''Energy Burn''))] # [mkAttack ''Fire Spin'' ''100'']))"
    by code_simp
  have c: "fieldOf (JObj [(js ''name'', JStr (js ''Energy Burn''))]) (js ''damage'') = None"
    by code_simp
  have d: "importFilter (JObj gapFields) = Inr True" by code_simp
  have e: "nonBlankDamage (mkAttack ''Fire Spin'' ''100'')" by code_simp
  from accepted_record_makes_decorateCard_throw [OF a b c d, of emptyCatalogue]
  obtain db' x where
    "importCardsFromFile emptyCatalogue (Parsed (JArr [JObj gapFields])) = (db', Processed 1)"
    and "x \<in> set (docs db')" and "decorateCard x = Inl TypeError"
    and "\<exists>e. getCards db' = Inl e"
    by blast
  then have "\<exists>db' d. importCardsFromFile emptyCatalogue (Parsed (JArr [JObj gapFields])) = (db', Processed 1)
           \<and> d \<in> set (docs db') \<and> decorateCard d = Inl TypeError
           \<and> (\<exists>e. getCards db' = Inl e)"
    by blast
  with a b c d e show ?thesis by (simp only: simp_thms)
qed

lemma getCard_fails_on_stored_record:
  "getCard (fst (importCardsFromFile emptyCatalogue (Parsed (JArr [JObj gapFields]))))
     (Some ''000000000000000000000000'') = Inl TypeError
   \<and> getCards (fst (importCardsFromFile emptyCatalogue (Parsed (JArr [JObj gapFields]))))
       = Inl TypeError"
  by code_simp


subsection \<open>What an import stores\<close>

lemma updateFirst_split:
  "updateFirst P f ds = Some ds' \<Longrightarrow>
   \<exists>pre d post. ds = pre @ d # post \<and> (\<forall>x\<in>set pre. \<not> P x) \<and> P d \<and> ds' = pre @ f d # post"
proof (induction ds arbitrary: ds')
  case Nil
  then show ?case by simp
next
  case (Cons x ds)
  show ?case
  proof (cases "P x")
    case True
    with Cons.prems have "x # ds = [] @ x # ds \<and> (\<forall>y\<in>set []. \<not> P y) \<and> P x \<and> ds' = [] @ f x # ds"
      by auto
    then show ?thesis by blast
  next
    case False
    with Cons.prems obtain ds'' where u: "updateFirst P f ds = Some ds''" and d: "ds' = x # ds''"
      by (auto split: option.splits)
    from Cons.IH [OF u] obtain pre d post where
      "ds = pre @ d # post" "\<forall>y\<in>set pre. \<not> P y" "P d" "ds'' = pre @ f d # post"
      by blast
    with False d have "x # ds = (x # pre) @ d # post \<and> (\<forall>y\<in>set (x # pre). \<not> P y) \<and> P d
        \<and> ds' = (x # pre) @ f d # post"
      by simp
    then show ?thesis by blast
  qed
qed

lemma updateFirst_None: "updateFirst P f ds = None \<Longrightarrow> \<forall>x\<in>set ds. \<not> P x"
  by (induction ds) (auto split: if_splits option.splits)

lemma idMatches_after_set:
  assumes "distinct (map fst fs)" and "idMatches (idOf (JObj fs)) d"
  shows "idMatches k (d\<lparr>doc_fields := setFields (doc_fields d) fs\<rparr>) = idMatches k d"
  using assms
  by (auto simp: idMatches_def idOf_def fieldOf_def bsonValue_def map_of_setFields
           split: option.splits)

lemma idMatches_inserted:
  assumes "distinct (map fst fs)"
  shows "idMatches k \<lparr> doc_id = i, doc_fields = setFields [(js ''id'', idOf (JObj fs))] fs \<rparr>
           \<longleftrightarrow> k = idOf (JObj fs)"
  using assms
  by (auto simp: idMatches_def idOf_def fieldOf_def bsonValue_def map_of_setFields
           split: option.splits)

lemma upsertOne_ids:
  assumes "distinct (map fst fs)"
  shows "\<exists>db'. upsertOne db (opOf (JObj fs)) = Inr db'
          \<and> (\<forall>k. (\<exists>d\<in>set (docs db'). idMatches k d)
                  \<longleftrightarrow> (\<exists>d\<in>set (docs db). idMatches k d) \<or> k = idOf (JObj fs))"
proof (cases "updateFirst (idMatches (idOf (JObj fs)))
                (\<lambda>d. d\<lparr>doc_fields := setFields (doc_fields d) fs\<rparr>) (docs db)")
  case None
  then have n: "\<forall>x\<in>set (docs db). \<not> idMatches (idOf (JObj fs)) x"
    by (rule updateFirst_None)
  from None have "upsertOne db (opOf (JObj fs)) =
      Inr \<lparr> docs = docs db @ [\<lparr> doc_id = nextId db,
                                 doc_fields = setFields [(js ''id'', idOf (JObj fs))] fs \<rparr>],
            nextId = nextId db + 1 \<rparr>"
    by (simp add: upsertOne_def opOf_def)
  then show ?thesis
    using idMatches_inserted [OF assms] by auto
next
  case (Some ds)
  let ?f = "\<lambda>d. d\<lparr>doc_fields := setFields (doc_fields d) fs\<rparr>"
  from updateFirst_split [OF Some] obtain pre d post where
    s: "docs db = pre @ d # post" "idMatches (idOf (JObj fs)) d" "ds = pre @ ?f d # post"
    by blast
  have m: "\<And>k. idMatches k (?f d) = idMatches k d"
    using idMatches_after_set [OF assms s(2)] by simp
  from Some have "upsertOne db (opOf (JObj fs)) = Inr (db\<lparr>docs := ds\<rparr>)"
    by (simp add: upsertOne_def opOf_def)
  moreover have "(\<exists>x\<in>set ds. idMatches k x)
                  \<longleftrightarrow> (\<exists>x\<in>set (docs db). idMatches k x) \<or> k = idOf (JObj fs)" for k
    using s m by auto
  ultimately show ?thesis by simp
qed

lemma wellTypedRecord_object:
  "wellTypedRecord r \<Longrightarrow> \<exists>fs. r = JObj fs \<and> distinct (map fst fs)"
  by (cases r) (auto simp: wellTypedRecord_def)

lemma applyOps_ids:
  "list_all wellTypedRecord es \<Longrightarrow>
   \<exists>db'. applyOps db (map opOf es) = (db', None)
     \<and> (\<forall>k. (\<exists>d\<in>set (docs db'). idMatches k d)
             \<longleftrightarrow> (\<exists>d\<in>set (docs db). idMatches k d) \<or> (\<exists>r\<in>set es. idOf r = k))"
proof (induction es arbitrary: db)
  case Nil
  then show ?case by simp
next
  case (Cons e es)
  from Cons.prems obtain fs where e: "e = JObj fs" "distinct (map fst fs)"
    using wellTypedRecord_object [of e] by auto
  from upsertOne_ids [OF e(2), of db] obtain db1 where
    u: "upsertOne db (opOf (JObj fs)) = Inr db1"
    and i1: "\<And>k. (\<exists>d\<in>set (docs db1). idMatches k d)
                  \<longleftrightarrow> (\<exists>d\<in>set (docs db). idMatches k d) \<or> k = idOf (JObj fs)"
    by blast
  from Cons.prems have "list_all wellTypedRecord es" by simp
  from Cons.IH [OF this, of db1] obtain db' where
    a: "applyOps db1 (map opOf es) = (db', None)"
    and i2: "\<And>k. (\<exists>d\<in>set (docs db'). idMatches k d)
             \<longleftrightarrow> (\<exists>d\<in>set (docs db1). idMatches k d) \<or> (\<exists>r\<in>set es. idOf r = k)"
    by blast
  from u a e have "applyOps db (map opOf (e # es)) = (db', None)" by simp
  moreover have "(\<exists>d\<in>set (docs db'). idMatches k d)
             \<longleftrightarrow> (\<exists>d\<in>set (docs db). idMatches k d) \<or> (\<exists>r\<in>set (e # es). idOf r = k)" for k
    using i1 [of k] i2 [of k] e(1) by auto
  ultimately show ?case by blast
qed

lemma import_well_typed:
  assumes "list_all wellTypedRecord rs"
  shows "importCardsFromFile db (Parsed (JArr rs)) =
     (case bulkWrite db (map opOf (filter eligible rs)) of
        (db', Some e) \<Rightarrow> (db', ImportError e)
      | (db', None) \<Rightarrow> (db', Processed (length (filter eligible rs))))"
  using filter_js_total [OF assms] by (rule import_parsed)

lemma import_ids:
  assumes "list_all wellTypedRecord rs"
  shows "(\<exists>d\<in>set (docs (fst (importCardsFromFile db (Parsed (JArr rs))))). idMatches k d)
           \<longleftrightarrow> (\<exists>d\<in>set (docs db). idMatches k d) \<or> (\<exists>r\<in>set rs. eligible r \<and> idOf r = k)"
proof (cases "filter eligible rs = []")
  case True
  then have "fst (importCardsFromFile db (Parsed (JArr rs))) = db"
    by (simp add: import_well_typed [OF assms] bulkWrite_def)
  moreover from True have "\<not> (\<exists>r\<in>set rs. eligible r \<and> idOf r = k)"
    by (auto simp: filter_empty_conv)
  ultimately show ?thesis by auto
next
  case False
  from assms have "list_all wellTypedRecord (filter eligible rs)"
    by (simp add: list_all_iff)
  from applyOps_ids [OF this, of db] obtain db' where
    a: "applyOps db (map opOf (filter eligible rs)) = (db', None)"
    and i: "\<And>k. (\<exists>d\<in>set (docs db'). idMatches k d)
             \<longleftrightarrow> (\<exists>d\<in>set (docs db). idMatches k d) \<or> (\<exists>r\<in>set (filter eligible rs). idOf r = k)"
    by blast
  from False a have "fst (importCardsFromFile db (Parsed (JArr rs))) = db'"
    by (simp add: import_well_typed [OF assms] bulkWrite_def)
  with i [of k] show ?thesis by auto
qed

lemma importFilterAttack_Inl: "importFilterAttack a = Inl e \<Longrightarrow> e = TypeError"
  by (cases a)
     (auto simp: importFilterAttack_def split: if_splits option.splits json.splits)

lemma some_js_Inl: "some_js importFilterAttack as = Inl e \<Longrightarrow> e = TypeError"
  by (induction as) (auto split: sum.splits if_splits dest: importFilterAttack_Inl)

lemma importFilter_Inl: "importFilter r = Inl e \<Longrightarrow> e = TypeError"
  by (cases r)
     (auto simp: importFilter_def split: if_splits option.splits json.splits dest: some_js_Inl)

lemma importFilter_cases:
  "importFilter r = Inr (eligible r) \<or> importFilter r = Inl TypeError"
  by (cases "importFilter r") (auto dest: importFilter_Inl importFilter_sound)

lemma filter_js_exact:
  "filter_js importFilter rs =
     (if list_ex (\<lambda>r. importFilter r = Inl TypeError) rs then Inl TypeError
      else Inr (filter eligible rs))"
proof (induction rs)
  case Nil
  then show ?case by simp
next
  case (Cons r rs)
  from importFilter_cases [of r] show ?case
  proof
    assume "importFilter r = Inr (eligible r)"
    with Cons.IH show ?thesis by simp
  next
    assume "importFilter r = Inl TypeError"
    then show ?thesis by simp
  qed
qed

lemma import_exact:
  "importCardsFromFile db (Parsed (JArr rs)) =
     (if list_ex (\<lambda>r. importFilter r = Inl TypeError) rs then (db, ImportError TypeError)
      else (case bulkWrite db (map opOf (filter eligible rs)) of
              (db', Some e) \<Rightarrow> (db', ImportError e)
            | (db', None) \<Rightarrow> (db', Processed (length (filter eligible rs)))))"
proof (cases "list_ex (\<lambda>r. importFilter r = Inl TypeError) rs")
  case True
  then have "filter_js importFilter rs = Inl TypeError" by (simp add: filter_js_exact)
  with True show ?thesis by (simp add: importCardsFromFile_def)
next
  case False
  then have "filter_js importFilter rs = Inr (filter eligible rs)" by (simp add: filter_js_exact)
  from import_parsed [OF this, of db] False show ?thesis by simp
qed

text \<open>
  Claim C2, as stated, fails: a record whose first attack has a number for its damage and
  whose second attack has the damage \<^verbatim>\<open>10\<close> is eligible in the claim's words, and the
  filter does not accept it: it throws, and the import of the file ends with nothing stored.
\<close>

theorem importFilter_throws_on_eligible_counterexample:
  "eligible numberFirstRecord
   \<and> importFilter numberFirstRecord = Inl TypeError
   \<and> importCardsFromFile emptyCatalogue (Parsed (JArr [numberFirstRecord]))
       = (emptyCatalogue, ImportError TypeError)"
  by code_simp

text \<open>
  Claim C2, amended. On every raw catalogue record the import filter either throws a
  TypeError or decides, and when it decides it accepts the record exactly when the record is
  eligible (category equal to the creature category, and at least one attack whose damage is
  present and non-blank after trimming); it decides on every record of the catalogue's
  shape. The import of a file stores nothing when the filter throws on one of its records;
  otherwise the operations handed to \<^verbatim>\<open>bulkWrite\<close> are those of the eligible records
  of the file, in order. After the import of a file of records of the catalogue's shape, a
  document with a given id is in the catalogue exactly when one was there before or an
  eligible record of the file has that id: records that fail the predicate are not stored.
\<close>

theorem importFilter_accepts_iff_eligible:
  "(importFilter r = Inr (eligible r) \<or> importFilter r = Inl TypeError)
   \<and> (importFilter r = Inr b \<longrightarrow> b = eligible r)
   \<and> (wellTypedRecord r \<longrightarrow> importFilter r = Inr (eligible r))
   \<and> importCardsFromFile db (Parsed (JArr rs))
       = (if list_ex (\<lambda>x. importFilter x = Inl TypeError) rs then (db, ImportError TypeError)
          else (case bulkWrite db (map opOf (filter eligible rs)) of
                  (db', Some e) \<Rightarrow> (db', ImportError e)
                | (db', None) \<Rightarrow> (db', Processed (length (filter eligible rs)))))
   \<and> (list_all wellTypedRecord rs \<longrightarrow>
         importCardsFromFile db (Parsed (JArr rs))
           = importCardsFromFile db (Parsed (JArr (filter eligible rs)))
         \<and> importCardsFromFile db (Parsed (JArr rs))
           = (case bulkWrite db (map opOf (filter eligible rs)) of
                (db', Some e) \<Rightarrow> (db', ImportError e)
              | (db', None) \<Rightarrow> (db', Processed (length (filter eligible rs))))
         \<and> (\<forall>k. (\<exists>d\<in>set (docs (fst (importCardsFromFile db (Parsed (JArr rs))))). idMatches k d)
                 \<longleftrightarrow> (\<exists>d\<in>set (docs db). idMatches k d)
                      \<or> (\<exists>x\<in>set rs. eligible x \<and> idOf x = k)))"
proof -
  have 0: "importFilter r = Inr (eligible r) \<or> importFilter r = Inl TypeError"
    by (rule importFilter_cases)
  have stored: "importCardsFromFile db (Parsed (JArr rs))
       = (if list_ex (\<lambda>x. importFilter x = Inl TypeError) rs then (db, ImportError TypeError)
          else (case bulkWrite db (map opOf (filter eligible rs)) of
                  (db', Some e) \<Rightarrow> (db', ImportError e)
                | (db', None) \<Rightarrow> (db', Processed (length (filter eligible rs)))))"
    by (rule import_exact)
  have same: "importCardsFromFile db (Parsed (JArr rs))
           = importCardsFromFile db (Parsed (JArr (filter eligible rs)))"
    if wt: "list_all wellTypedRecord rs"
  proof -
    from wt have "list_all wellTypedRecord (filter eligible rs)"
      by (simp add: list_all_iff)
    then have "filter_js importFilter (filter eligible rs) = Inr (filter eligible (filter eligible rs))"
      by (rule filter_js_total)
    then have "filter_js importFilter (filter eligible rs) = Inr (filter eligible rs)"
      by simp
    moreover from wt have "filter_js importFilter rs = Inr (filter eligible rs)"
      by (rule filter_js_total)
    ultimately show ?thesis by (simp add: import_parsed)
  qed
  have 1: "importFilter r = Inr b \<longrightarrow> b = eligible r"
    using importFilter_sound [of r b] by blast
  have 2: "wellTypedRecord r \<longrightarrow> importFilter r = Inr (eligible r)"
    using importFilter_total [of r] by blast
  have 4: "list_all wellTypedRecord rs \<longrightarrow>
         importCardsFromFile db (Parsed (JArr rs))
           = importCardsFromFile db (Parsed (JArr (filter eligible rs)))
         \<and> importCardsFromFile db (Parsed (JArr rs))
           = (case bulkWrite db (map opOf (filter eligible rs)) of
                (db', Some e) \<Rightarrow> (db', ImportError e)
              | (db', None) \<Rightarrow> (db', Processed (length (filter eligible rs))))
         \<and> (\<forall>k. (\<exists>d\<in>set (docs (fst (importCardsFromFile db (Parsed (JArr rs))))). idMatches k d)
                 \<longleftrightarrow> (\<exists>d\<in>set (docs db). idMatches k d)
                      \<or> (\<exists>x\<in>set rs. eligible x \<and> idOf x = k))"
  proof
    assume wt: "list_all wellTypedRecord rs"
    show "importCardsFromFile db (Parsed (JArr rs))
           = importCardsFromFile db (Parsed (JArr (filter eligible rs)))
         \<and> importCardsFromFile db (Parsed (JArr rs))
           = (case bulkWrite db (map opOf (filter eligible rs)) of
                (db', Some e) \<Rightarrow> (db', ImportError e)
              | (db', None) \<Rightarrow> (db', Processed (length (filter eligible rs))))
         \<and> (\<forall>k. (\<exists>d\<in>set (docs (fst (importCardsFromFile db (Parsed (JArr rs))))). idMatches k d)
                 \<longleftrightarrow> (\<exists>d\<in>set (docs db). idMatches k d)
                      \<or> (\<exists>x\<in>set rs. eligible x \<and> idOf x = k))"
      using same [OF wt] import_well_typed [OF wt, of db] import_ids [OF wt, of db]
      by (intro conjI allI)
  qed
  from 0 1 2 stored 4 show ?thesis by (intro conjI)
qed

theorem importFilter_accepts_iff_eligible_witness:
  "importFilter pokemonRecord = Inr True \<and> eligible pokemonRecord
   \<and> wellTypedRecord trainerRecord \<and> importFilter trainerRecord = Inr False
   \<and> list_all wellTypedRecord [pokemonRecord, trainerRecord]
   \<and> importCardsFromFile emptyCatalogue (Parsed (JArr [pokemonRecord, trainerRecord]))
       = importCardsFromFile emptyCatalogue (Parsed (JArr [pokemonRecord]))
   \<and> list_ex (idMatches (idOf pokemonRecord))
        (docs (fst (importCardsFromFile emptyCatalogue (Parsed (JArr [pokemonRecord, trainerRecord])))))
   \<and> \<not> list_ex (idMatches (idOf trainerRecord))
        (docs (fst (importCardsFromFile emptyCatalogue (Parsed (JArr [pokemonRecord, trainerRecord])))))"
proof -
  have a: "importFilter pokemonRecord = Inr True" by code_simp
  have b: "wellTypedRecord trainerRecord" by code_simp
  have c: "list_all wellTypedRecord [pokemonRecord, trainerRecord]" by code_simp
  have d: "filter eligible [pokemonRecord, trainerRecord] = [pokemonRecord]" by code_simp
  have e: "\<not> eligible trainerRecord" by code_simp
  have f: "idOf pokemonRecord \<noteq> idOf trainerRecord" by code_simp
  have g: "docs emptyCatalogue = []" by (simp add: emptyCatalogue_def)
  note t = importFilter_accepts_iff_eligible
             [of pokemonRecord True emptyCatalogue "[pokemonRecord, trainerRecord]"]
  from t [THEN conjunct2, THEN conjunct1, THEN mp, OF a] have p: "eligible pokemonRecord"
    by simp
  from importFilter_accepts_iff_eligible
         [of trainerRecord True emptyCatalogue "[]",
          THEN conjunct2, THEN conjunct2, THEN conjunct1, THEN mp, OF b] e
  have q: "importFilter trainerRecord = Inr False"
    by simp
  note w = t [THEN conjunct2, THEN conjunct2, THEN conjunct2, THEN conjunct2, THEN mp, OF c]
  from w [THEN conjunct1] d
  have s: "importCardsFromFile emptyCatalogue (Parsed (JArr [pokemonRecord, trainerRecord]))
       = importCardsFromFile emptyCatalogue (Parsed (JArr [pokemonRecord]))"
    by simp
  note i = w [THEN conjunct2, THEN conjunct2, THEN spec]
  have u: "list_ex (idMatches (idOf pokemonRecord))
        (docs (fst (importCardsFromFile emptyCatalogue (Parsed (JArr [pokemonRecord, trainerRecord])))))"
    using i [of "idOf pokemonRecord"] p by (simp add: list_ex_iff)
  have v: "\<not> list_ex (idMatches (idOf trainerRecord))
        (docs (fst (importCardsFromFile emptyCatalogue (Parsed (JArr [pokemonRecord, trainerRecord])))))"
    using i [of "idOf trainerRecord"] e f g by (simp add: list_ex_iff)
  from a p b q c s u v show ?thesis by (simp only: simp_thms)
qed
section \<open>Properties of battles\<close>

subsection \<open>Finding and updating one document\<close>

lemma find_updateFirst:
  "find P ds = Some d \<Longrightarrow> (\<And>x. P (f x) = P x) \<Longrightarrow>
   \<exists>ds'. updateFirst P f ds = Some ds' \<and> find P ds' = Some (f d)"
proof (induction ds)
  case Nil
  then show ?case by simp
next
  case (Cons x ds)
  show ?case
  proof (cases "P x")
    case True
    with Cons.prems show ?thesis by simp
  next
    case False
    with Cons.prems have "find P ds = Some d" by simp
    then obtain ds' where "updateFirst P f ds = Some ds'" "find P ds' = Some (f d)"
      using Cons.IH Cons.prems(2) by blast
    with False show ?thesis by simp
  qed
qed

lemma find_None_updateFirst: "find P ds = None \<Longrightarrow> updateFirst P f ds = None"
  by (induction ds) (auto split: if_splits)

lemma findOneAndUpdate_found:
  assumes "find P (docs db) = Some d" and "\<And>x. P (f x) = P x"
  shows "\<exists>db'. findOneAndUpdate db P f = (Some (f d), db') \<and> find P (docs db') = Some (f d)"
proof -
  from find_updateFirst [of P "docs db" d f, OF assms]
  obtain ds' where "updateFirst P f (docs db) = Some ds'" "find P ds' = Some (f d)"
    by blast
  with assms(1) show ?thesis
    by (simp add: findOneAndUpdate_def)
qed

lemma findOneAndUpdate_missing:
  "find P (docs db) = None \<Longrightarrow> findOneAndUpdate db P f = (None, db)"
  by (simp add: findOneAndUpdate_def)

lemma battle_oid_setBattle [simp]: "battle_oid (setBattle u b) = battle_oid b"
  by (simp add: setBattle_def)

lemma find_oid_Some_iff:
  "(\<exists>b. find (\<lambda>b. battle_oid b = oid) ds = Some b) \<longleftrightarrow> (\<exists>b\<in>set ds. battle_oid b = oid)"
  by (induction ds) auto

lemma ObjectId_new_nonempty: "ObjectId_new s = Inr oid \<Longrightarrow> s \<noteq> []"
  by (auto simp: ObjectId_new_def split: if_splits)

lemma updateBattle_found:
  assumes "toObjectIds (u_playerOneCards u) = Inr c1"
    and "toObjectIds (u_playerTwoCards u) = Inr c2"
    and "ObjectId_new battleId = Inr oid"
    and "find (\<lambda>b. battle_oid b = oid) (docs db) = Some b"
  shows "\<exists>db'. updateBattle db battleId u =
           Inr (decorateBattle
                  (setBattle \<lparr> u_state = (if truthyString (u_state u) then u_state u else None),
                               u_playerOneCards = c1, u_playerTwoCards = c2,
                               u_rounds = u_rounds u,
                               u_winnerId = (if truthyString (u_winnerId u) then u_winnerId u else None) \<rparr>
                     b), db')
         \<and> find (\<lambda>b. battle_oid b = oid) (docs db') =
             Some (setBattle \<lparr> u_state = (if truthyString (u_state u) then u_state u else None),
                               u_playerOneCards = c1, u_playerTwoCards = c2,
                               u_rounds = u_rounds u,
                               u_winnerId = (if truthyString (u_winnerId u) then u_winnerId u else None) \<rparr>
                     b)"
proof -
  let ?f = "setBattle \<lparr> u_state = (if truthyString (u_state u) then u_state u else None),
                               u_playerOneCards = c1, u_playerTwoCards = c2,
                               u_rounds = u_rounds u,
                               u_winnerId = (if truthyString (u_winnerId u) then u_winnerId u else None) \<rparr>"
  have "\<And>x. (battle_oid (?f x) = oid) = (battle_oid x = oid)" by simp
  with assms(4) obtain db' where
    "findOneAndUpdate db (\<lambda>b. battle_oid b = oid) ?f = (Some (?f b), db')"
    "find (\<lambda>b. battle_oid b = oid) (docs db') = Some (?f b)"
    using findOneAndUpdate_found [of "\<lambda>b. battle_oid b = oid" db b ?f] by blast
  with assms(1-3) show ?thesis
    by (simp add: updateBattle_def)
qed

lemma updateBattle_Inr:
  assumes "updateBattle db battleId u = Inr (b', db')"
  shows "\<exists>c1 c2 oid b.
           toObjectIds (u_playerOneCards u) = Inr c1
           \<and> toObjectIds (u_playerTwoCards u) = Inr c2
           \<and> ObjectId_new battleId = Inr oid
           \<and> find (\<lambda>b. battle_oid b = oid) (docs db) = Some b"
proof -
  from assms obtain c1 where c1: "toObjectIds (u_playerOneCards u) = Inr c1"
    by (cases "toObjectIds (u_playerOneCards u)") (auto simp: updateBattle_def)
  from assms c1 obtain c2 where c2: "toObjectIds (u_playerTwoCards u) = Inr c2"
    by (cases "toObjectIds (u_playerTwoCards u)") (auto simp: updateBattle_def)
  from assms c1 c2 obtain oid where oid: "ObjectId_new battleId = Inr oid"
    by (cases "ObjectId_new battleId") (auto simp: updateBattle_def)
  from assms c1 c2 oid obtain b where "find (\<lambda>b. battle_oid b = oid) (docs db) = Some b"
    by (cases "find (\<lambda>b. battle_oid b = oid) (docs db)")
       (auto simp: updateBattle_def findOneAndUpdate_missing)
  with c1 c2 oid show ?thesis by blast
qed

lemma ObjectId_new_Inl: "ObjectId_new s = Inl e \<Longrightarrow> e = BSONError"
  by (auto simp: ObjectId_new_def split: if_splits option.splits)

lemma map_js_ObjectId_Inl:
  "map_js (\<lambda>x. case ObjectId_new (bc_id x) of
                  Inl e \<Rightarrow> Inl e
                | Inr i \<Rightarrow> Inr \<lparr> bc_id = i, bc_card = bc_card x \<rparr>) xs = Inl e
   \<Longrightarrow> e = BSONError"
  by (induction xs) (auto split: sum.splits dest: ObjectId_new_Inl)

lemma toObjectIds_Inl: "toObjectIds cs = Inl e \<Longrightarrow> e = BSONError"
  by (auto simp: toObjectIds_def split: option.splits sum.splits dest: map_js_ObjectId_Inl)

lemma updateBattle_Inl:
  assumes "updateBattle db battleId u = Inl e"
  shows "e = BSONError \<or> e = Error ''No battle found with the provided ID''"
  using assms
  by (auto simp: updateBattle_def split: sum.splits prod.splits option.splits
           dest: toObjectIds_Inl ObjectId_new_Inl)

lemma getBattle_found:
  "ObjectId_new s = Inr oid \<Longrightarrow>
   getBattle db (Some s) = Inr (map_option decorateBattle (find (\<lambda>b. battle_oid b = oid) (docs db)))"
  by (auto simp: getBattle_def dest: ObjectId_new_nonempty)

lemma orElse_simps [simp]: "orElse None old = old" "orElse (Some v) old = Some v"
  by (simp_all add: orElse_def)

lemma state_decorateBattle [simp]:
  "state (decorateBattle b) = state b" "winnerId (decorateBattle b) = winnerId b"
  "rounds (decorateBattle b) = rounds b" "playerOneId (decorateBattle b) = playerOneId b"
  "playerTwoId (decorateBattle b) = playerTwoId b"
  by (simp_all add: decorateBattle_def)

lemma updateFirst_find:
  "find P ds = Some d \<Longrightarrow>
   updateFirst P f ds
     = Some (takeWhile (\<lambda>x. \<not> P x) ds @ f d # tl (dropWhile (\<lambda>x. \<not> P x) ds))"
  by (induction ds) (auto split: if_splits)

lemma updateBattle_writes:
  assumes "toObjectIds (u_playerOneCards u) = Inr c1"
    and "toObjectIds (u_playerTwoCards u) = Inr c2"
    and "ObjectId_new battleId = Inr oid"
    and "find (\<lambda>x. battle_oid x = oid) (docs db) = Some b"
  shows "updateBattle db battleId u =
           Inr (decorateBattle
                  (setBattle \<lparr> u_state = (if truthyString (u_state u) then u_state u else None),
                               u_playerOneCards = c1, u_playerTwoCards = c2,
                               u_rounds = u_rounds u,
                               u_winnerId = (if truthyString (u_winnerId u) then u_winnerId u else None) \<rparr>
                     b),
                db\<lparr> docs := takeWhile (\<lambda>x. battle_oid x \<noteq> oid) (docs db)
                     @ setBattle \<lparr> u_state = (if truthyString (u_state u) then u_state u else None),
                               u_playerOneCards = c1, u_playerTwoCards = c2,
                               u_rounds = u_rounds u,
                               u_winnerId = (if truthyString (u_winnerId u) then u_winnerId u else None) \<rparr>
                         b
                     # tl (dropWhile (\<lambda>x. battle_oid x \<noteq> oid) (docs db)) \<rparr>)"
  using assms
  by (simp add: updateBattle_def findOneAndUpdate_def updateFirst_find [OF assms(4)])

lemma setBattle_fields:
  "setBattle \<lparr> u_state = (if truthyString (u_state u) then u_state u else None),
               u_playerOneCards = c1, u_playerTwoCards = c2,
               u_rounds = u_rounds u,
               u_winnerId = (if truthyString (u_winnerId u) then u_winnerId u else None) \<rparr> b
   = b\<lparr> state := (if truthyString (u_state u) then u_state u else state b),
        playerOneCards := (case c1 of None \<Rightarrow> playerOneCards b | Some cs \<Rightarrow> Some cs),
        playerTwoCards := (case c2 of None \<Rightarrow> playerTwoCards b | Some cs \<Rightarrow> Some cs),
        rounds := (case u_rounds u of None \<Rightarrow> rounds b | Some rs \<Rightarrow> Some rs),
        winnerId := (if truthyString (u_winnerId u) then u_winnerId u else winnerId b) \<rparr>"
  by (auto simp: setBattle_def orElse_def truthyString_def split: option.splits)

subsection \<open>createBattle\<close>

text \<open>
  Claim C7, as stated, fails: \<^verbatim>\<open>createBattle\<close> takes \<^verbatim>\<open>playerTwoId\<close> as an argument and
  stores it, so a battle created for an opponent carries that opponent's id from the start.
\<close>

theorem createBattle_playerTwoId_counterexample:
  "createBattle emptyBattles (Some ''alice'') (Some ''bob'')
       (Some [\<lparr> bc_id = 0xA1, bc_card = ''Alakazam'' \<rparr>])
     = Inr (\<lparr> battle_oid = 1, state = Some REQUESTED,
              playerOneId = Some ''alice'', playerTwoId = Some ''bob'',
              playerOneCards = Some [\<lparr> bc_id = 0xA1, bc_card = ''Alakazam'' \<rparr>],
              playerTwoCards = None, rounds = None, winnerId = None,
              battle_id = ''000000000000000000000001'' \<rparr>,
            \<lparr> docs = [\<lparr> battle_oid = 1, state = Some REQUESTED,
                        playerOneId = Some ''alice'', playerTwoId = Some ''bob'',
                        playerOneCards = Some [\<lparr> bc_id = 0xA1, bc_card = ''Alakazam'' \<rparr>],
                        playerTwoCards = None, rounds = None, winnerId = None \<rparr>],
              nextId = 2 \<rparr>)"
  by code_simp

text \<open>
  Claim C7, amended. Every newly created battle is in the \<^verbatim>\<open>REQUESTED\<close> state, carries
  player one's roster as \<^verbatim>\<open>playerOneCards\<close> and the \<^verbatim>\<open>playerTwoId\<close> the caller passed
  (none only when the caller passed none), and has no \<^verbatim>\<open>playerTwoCards\<close>, no rounds and
  no \<^verbatim>\<open>winnerId\<close>; the same document is appended to the collection.
\<close>

theorem createBattle_initial_state:
  "\<exists>b db'. createBattle db p1 p2 cards = Inr (b, db')
     \<and> state b = Some REQUESTED
     \<and> playerOneId b = p1
     \<and> playerOneCards b = cards
     \<and> playerTwoId b = p2
     \<and> playerTwoCards b = None
     \<and> rounds b = None
     \<and> winnerId b = None
     \<and> battle_id b = toHexString (battle_oid b)
     \<and> docs db' = docs db @ [battle.truncate b]"
  by (simp add: createBattle_def insertOne_def battle.truncate_def decoratedBattle.defs battle.defs)

subsection \<open>updateBattle\<close>

text \<open>
  Claim C3, as stated, fails: \<^verbatim>\<open>updateBattle\<close> does not read the state of the battle it
  writes to. An update that carries a state and a winner turns a completed battle won by
  one player into an active battle won by the other.
\<close>

theorem updateBattle_reopens_completed_counterexample:
  "getBattle \<lparr> docs = [completedBattle], nextId = 2 \<rparr> (Some battleOne)
     = Inr (Some (decorateBattle completedBattle))
   \<and> state (decorateBattle completedBattle) = Some COMPLETED
   \<and> winnerId (decorateBattle completedBattle) = Some ''alice''
   \<and> updateBattle \<lparr> docs = [completedBattle], nextId = 2 \<rparr> battleOne reopenUpdate
     = Inr (decorateBattle (completedBattle\<lparr> state := Some ACTIVE, winnerId := Some ''bob'' \<rparr>),
            \<lparr> docs = [completedBattle\<lparr> state := Some ACTIVE, winnerId := Some ''bob'' \<rparr>],
              nextId = 2 \<rparr>)
   \<and> state (decorateBattle (completedBattle\<lparr> state := Some ACTIVE, winnerId := Some ''bob'' \<rparr>))
       = Some ACTIVE
   \<and> winnerId (decorateBattle (completedBattle\<lparr> state := Some ACTIVE, winnerId := Some ''bob'' \<rparr>))
       = Some ''bob''"
proof -
  have "getBattle \<lparr> docs = [completedBattle], nextId = 2 \<rparr> (Some battleOne)
     = Inr (Some (decorateBattle completedBattle))"
    by code_simp
  moreover have "updateBattle \<lparr> docs = [completedBattle], nextId = 2 \<rparr> battleOne reopenUpdate
     = Inr (decorateBattle (completedBattle\<lparr> state := Some ACTIVE, winnerId := Some ''bob'' \<rparr>),
            \<lparr> docs = [completedBattle\<lparr> state := Some ACTIVE, winnerId := Some ''bob'' \<rparr>],
              nextId = 2 \<rparr>)"
    by code_simp
  ultimately show ?thesis
    by (simp add: completedBattle_def)
qed

text \<open>
  Claim C3, amended. A successful \<^verbatim>\<open>updateBattle\<close> changes the fields its argument
  supplies and no others, whatever the state of the battle: an update that supplies no
  (non-empty) state leaves the state as it was, so a completed battle stays completed under
  it; one that supplies no (non-empty) \<^verbatim>\<open>winnerId\<close> leaves the winner as it was; and no
  update clears a state or a \<^verbatim>\<open>winnerId\<close> that is set.
\<close>

theorem updateBattle_changes_supplied_fields_only:
  assumes "updateBattle db battleId u = Inr (b', db')"
  shows "\<exists>b. getBattle db (Some battleId) = Inr (Some b)
           \<and> getBattle db' (Some battleId) = Inr (Some b')
           \<and> state b' = (if truthyString (u_state u) then u_state u else state b)
           \<and> winnerId b' = (if truthyString (u_winnerId u) then u_winnerId u else winnerId b)
           \<and> rounds b' = (case u_rounds u of None \<Rightarrow> rounds b | Some rs \<Rightarrow> Some rs)
           \<and> playerOneId b' = playerOneId b \<and> playerTwoId b' = playerTwoId b
           \<and> (u_playerOneCards u = None \<longrightarrow> playerOneCards b' = playerOneCards b)
           \<and> (u_playerTwoCards u = None \<longrightarrow> playerTwoCards b' = playerTwoCards b)
           \<and> (truthyString (winnerId b) \<longrightarrow> truthyString (winnerId b'))
           \<and> (truthyString (state b) \<longrightarrow> truthyString (state b'))"
proof -
  from updateBattle_Inr [OF assms] obtain c1 c2 oid b where
    h: "toObjectIds (u_playerOneCards u) = Inr c1"
       "toObjectIds (u_playerTwoCards u) = Inr c2"
       "ObjectId_new battleId = Inr oid"
       "find (\<lambda>b. battle_oid b = oid) (docs db) = Some b"
    by blast
  let ?b = "setBattle \<lparr> u_state = (if truthyString (u_state u) then u_state u else None),
                        u_playerOneCards = c1, u_playerTwoCards = c2,
                        u_rounds = u_rounds u,
                        u_winnerId = (if truthyString (u_winnerId u) then u_winnerId u else None) \<rparr> b"
  from updateBattle_found [OF h] assms
  have r: "b' = decorateBattle ?b"
    and f: "find (\<lambda>b. battle_oid b = oid) (docs db') = Some ?b"
    by auto
  have 1: "getBattle db (Some battleId) = Inr (Some (decorateBattle b))"
    using h(3,4) by (simp add: getBattle_found)
  have 2: "getBattle db' (Some battleId) = Inr (Some b')"
    using h(3) f r by (simp add: getBattle_found)
  let ?d = "decorateBattle b"
  have 3: "state b' = (if truthyString (u_state u) then u_state u else state ?d)"
    "winnerId b' = (if truthyString (u_winnerId u) then u_winnerId u else winnerId ?d)"
    "rounds b' = (case u_rounds u of None \<Rightarrow> rounds ?d | Some rs \<Rightarrow> Some rs)"
    "playerOneId b' = playerOneId ?d" "playerTwoId b' = playerTwoId ?d"
    by (auto simp: r setBattle_def truthyString_def split: option.splits)
  from 3 have 4: "truthyString (winnerId ?d) \<longrightarrow> truthyString (winnerId b')"
    "truthyString (state ?d) \<longrightarrow> truthyString (state b')"
    by (auto split: if_splits)
  have 5: "u_playerOneCards u = None \<longrightarrow> playerOneCards b' = playerOneCards ?d"
    "u_playerTwoCards u = None \<longrightarrow> playerTwoCards b' = playerTwoCards ?d"
    using h(1,2) by (auto simp: r setBattle_def decorateBattle_def toObjectIds_def)
  from 1 2 3 4 5 show ?thesis
    by (intro exI [of _ ?d] conjI)
qed

theorem updateBattle_changes_supplied_fields_only_witness:
  "updateBattle \<lparr> docs = [completedBattle], nextId = 2 \<rparr> battleOne (roundUpdate 7)
     = Inr (decorateBattle (completedBattle\<lparr> rounds := Some [7] \<rparr>),
            \<lparr> docs = [completedBattle\<lparr> rounds := Some [7] \<rparr>], nextId = 2 \<rparr>)
   \<and> getBattle \<lparr> docs = [completedBattle], nextId = 2 \<rparr> (Some battleOne)
       = Inr (Some (decorateBattle completedBattle))
   \<and> state (decorateBattle (completedBattle\<lparr> rounds := Some [7] \<rparr>)) = Some COMPLETED
   \<and> winnerId (decorateBattle (completedBattle\<lparr> rounds := Some [7] \<rparr>)) = Some ''alice''
   \<and> rounds (decorateBattle (completedBattle\<lparr> rounds := Some [7] \<rparr>)) = Some [7]"
proof -
  have h: "updateBattle \<lparr> docs = [completedBattle], nextId = 2 \<rparr> battleOne (roundUpdate 7)
     = Inr (decorateBattle (completedBattle\<lparr> rounds := Some [7] \<rparr>),
            \<lparr> docs = [completedBattle\<lparr> rounds := Some [7] \<rparr>], nextId = 2 \<rparr>)"
    by code_simp
  have g: "getBattle \<lparr> docs = [completedBattle], nextId = 2 \<rparr> (Some battleOne)
       = Inr (Some (decorateBattle completedBattle))"
    by code_simp
  have s: "state (decorateBattle completedBattle) = Some COMPLETED"
    "winnerId (decorateBattle completedBattle) = Some ''alice''"
    "u_state (roundUpdate 7) = None" "u_winnerId (roundUpdate 7) = None"
    "u_rounds (roundUpdate 7) = Some [7]"
    by (simp_all add: completedBattle_def roundUpdate_def)
  from updateBattle_changes_supplied_fields_only [OF h] g s
  have "state (decorateBattle (completedBattle\<lparr> rounds := Some [7] \<rparr>)) = Some COMPLETED"
    and "winnerId (decorateBattle (completedBattle\<lparr> rounds := Some [7] \<rparr>)) = Some ''alice''"
    and "rounds (decorateBattle (completedBattle\<lparr> rounds := Some [7] \<rparr>)) = Some [7]"
    by (auto simp: truthyString_def)
  with h g show ?thesis by (simp only: simp_thms)
qed

text \<open>
  Claim C8, as stated, fails: two round submissions computed from the same reading of an
  active battle with no rounds are both applied, the second to a battle that changed since
  it was read; neither is rejected.
\<close>

theorem updateBattle_stale_submission_counterexample:
  "updateBattle \<lparr> docs = [activeBattle], nextId = 2 \<rparr> battleOne (roundUpdate 11)
     = Inr (decorateBattle (activeBattle\<lparr> rounds := Some [11] \<rparr>),
            \<lparr> docs = [activeBattle\<lparr> rounds := Some [11] \<rparr>], nextId = 2 \<rparr>)
   \<and> updateBattle \<lparr> docs = [activeBattle\<lparr> rounds := Some [11] \<rparr>], nextId = 2 \<rparr>
         battleOne (roundUpdate 22)
     = Inr (decorateBattle (activeBattle\<lparr> rounds := Some [22] \<rparr>),
            \<lparr> docs = [activeBattle\<lparr> rounds := Some [22] \<rparr>], nextId = 2 \<rparr>)"
  by code_simp

text \<open>
  Claim C8, amended. \<^verbatim>\<open>updateBattle\<close> makes no check against the battle's current state
  or rounds and has no conflict outcome: its filter is the battle's \<^verbatim>\<open>_id\<close> alone. When
  the identifiers are well-formed and a battle with that id exists, the supplied fields are
  written to the first battle with that id, whatever its state and rounds, every other field
  and every other battle stays as it was, and the battle as written is returned; otherwise
  the call fails, with the driver's error for a malformed identifier or with
  \<^verbatim>\<open>No battle found with the provided ID\<close>, and never because the battle changed. A
  submission that follows an applied one, for the same battle, is applied as well: it
  is not rejected, the rounds and the state it supplies replace those the first one left, and
  the battle read back afterwards is the one it returned.
\<close>

theorem updateBattle_ignores_current_state:
  "(updateBattle db battleId u = Inl e \<longrightarrow>
      e = BSONError \<or> e = Error ''No battle found with the provided ID'')
   \<and> ((\<exists>r. updateBattle db battleId u = Inr r) \<longleftrightarrow>
        (\<exists>c1 c2 oid. toObjectIds (u_playerOneCards u) = Inr c1
            \<and> toObjectIds (u_playerTwoCards u) = Inr c2
            \<and> ObjectId_new battleId = Inr oid
            \<and> (\<exists>b\<in>set (docs db). battle_oid b = oid)))
   \<and> (toObjectIds (u_playerOneCards u) = Inr c1
        \<and> toObjectIds (u_playerTwoCards u) = Inr c2
        \<and> ObjectId_new battleId = Inr oid
        \<and> find (\<lambda>x. battle_oid x = oid) (docs db) = Some b
      \<longrightarrow> (let b' = b\<lparr> state := (if truthyString (u_state u) then u_state u else state b),
                        playerOneCards := (case c1 of None \<Rightarrow> playerOneCards b | Some cs \<Rightarrow> Some cs),
                        playerTwoCards := (case c2 of None \<Rightarrow> playerTwoCards b | Some cs \<Rightarrow> Some cs),
                        rounds := (case u_rounds u of None \<Rightarrow> rounds b | Some rs \<Rightarrow> Some rs),
                        winnerId := (if truthyString (u_winnerId u) then u_winnerId u
                                     else winnerId b) \<rparr>
           in updateBattle db battleId u =
                Inr (decorateBattle b',
                     db\<lparr> docs := takeWhile (\<lambda>x. battle_oid x \<noteq> oid) (docs db) @ b'
                                    # tl (dropWhile (\<lambda>x. battle_oid x \<noteq> oid) (docs db)) \<rparr>)))
   \<and> (updateBattle db battleId u = Inr (b1, db1)
        \<and> toObjectIds (u_playerOneCards v) = Inr d1
        \<and> toObjectIds (u_playerTwoCards v) = Inr d2
      \<longrightarrow> (\<exists>b2 db2. updateBattle db1 battleId v = Inr (b2, db2)
             \<and> rounds b2 = (case u_rounds v of None \<Rightarrow> rounds b1 | Some rs \<Rightarrow> Some rs)
             \<and> state b2 = (if truthyString (u_state v) then u_state v else state b1)
             \<and> getBattle db2 (Some battleId) = Inr (Some b2)))"
proof -
  have A: "updateBattle db battleId u = Inl e \<longrightarrow>
      e = BSONError \<or> e = Error ''No battle found with the provided ID''"
    using updateBattle_Inl [of db battleId u e] by blast
  have B1: "\<exists>r. updateBattle db battleId u = Inr r"
    if "toObjectIds (u_playerOneCards u) = Inr c1" "toObjectIds (u_playerTwoCards u) = Inr c2"
      "ObjectId_new battleId = Inr oid" "b \<in> set (docs db)" "battle_oid b = oid" for c1 c2 oid b
  proof -
    from that(4,5) obtain b0 where "find (\<lambda>b. battle_oid b = oid) (docs db) = Some b0"
      using find_oid_Some_iff [of oid "docs db"] by blast
    from updateBattle_found [OF that(1-3) this] show ?thesis by blast
  qed
  have B2: "\<exists>c1 c2 oid. toObjectIds (u_playerOneCards u) = Inr c1
            \<and> toObjectIds (u_playerTwoCards u) = Inr c2
            \<and> ObjectId_new battleId = Inr oid
            \<and> (\<exists>b\<in>set (docs db). battle_oid b = oid)"
    if "updateBattle db battleId u = Inr r" for r
  proof -
    obtain b' db' where "r = (b', db')" by (cases r)
    with that have "updateBattle db battleId u = Inr (b', db')" by simp
    from updateBattle_Inr [OF this] show ?thesis
      using find_oid_Some_iff by fast
  qed
  have B: "(\<exists>r. updateBattle db battleId u = Inr r) \<longleftrightarrow>
        (\<exists>c1 c2 oid. toObjectIds (u_playerOneCards u) = Inr c1
            \<and> toObjectIds (u_playerTwoCards u) = Inr c2
            \<and> ObjectId_new battleId = Inr oid
            \<and> (\<exists>b\<in>set (docs db). battle_oid b = oid))"
    using B1 B2 by blast
  have C: "toObjectIds (u_playerOneCards u) = Inr c1
        \<and> toObjectIds (u_playerTwoCards u) = Inr c2
        \<and> ObjectId_new battleId = Inr oid
        \<and> find (\<lambda>x. battle_oid x = oid) (docs db) = Some b
      \<longrightarrow> (let b' = b\<lparr> state := (if truthyString (u_state u) then u_state u else state b),
                        playerOneCards := (case c1 of None \<Rightarrow> playerOneCards b | Some cs \<Rightarrow> Some cs),
                        playerTwoCards := (case c2 of None \<Rightarrow> playerTwoCards b | Some cs \<Rightarrow> Some cs),
                        rounds := (case u_rounds u of None \<Rightarrow> rounds b | Some rs \<Rightarrow> Some rs),
                        winnerId := (if truthyString (u_winnerId u) then u_winnerId u
                                     else winnerId b) \<rparr>
           in updateBattle db battleId u =
                Inr (decorateBattle b',
                     db\<lparr> docs := takeWhile (\<lambda>x. battle_oid x \<noteq> oid) (docs db) @ b'
                                    # tl (dropWhile (\<lambda>x. battle_oid x \<noteq> oid) (docs db)) \<rparr>))"
  proof
    assume h: "toObjectIds (u_playerOneCards u) = Inr c1
        \<and> toObjectIds (u_playerTwoCards u) = Inr c2
        \<and> ObjectId_new battleId = Inr oid
        \<and> find (\<lambda>x. battle_oid x = oid) (docs db) = Some b"
    then have h1: "toObjectIds (u_playerOneCards u) = Inr c1"
      and h2: "toObjectIds (u_playerTwoCards u) = Inr c2"
      and h3: "ObjectId_new battleId = Inr oid"
      and h4: "find (\<lambda>x. battle_oid x = oid) (docs db) = Some b"
      by simp_all
    from updateBattle_writes [OF h1 h2 h3 h4] setBattle_fields [of u c1 c2 b]
    show "let b' = b\<lparr> state := (if truthyString (u_state u) then u_state u else state b),
                        playerOneCards := (case c1 of None \<Rightarrow> playerOneCards b | Some cs \<Rightarrow> Some cs),
                        playerTwoCards := (case c2 of None \<Rightarrow> playerTwoCards b | Some cs \<Rightarrow> Some cs),
                        rounds := (case u_rounds u of None \<Rightarrow> rounds b | Some rs \<Rightarrow> Some rs),
                        winnerId := (if truthyString (u_winnerId u) then u_winnerId u
                                     else winnerId b) \<rparr>
           in updateBattle db battleId u =
                Inr (decorateBattle b',
                     db\<lparr> docs := takeWhile (\<lambda>x. battle_oid x \<noteq> oid) (docs db) @ b'
                                    # tl (dropWhile (\<lambda>x. battle_oid x \<noteq> oid) (docs db)) \<rparr>)"
      by (simp only: Let_def)
  qed
  have D: "updateBattle db battleId u = Inr (b1, db1)
        \<and> toObjectIds (u_playerOneCards v) = Inr d1
        \<and> toObjectIds (u_playerTwoCards v) = Inr d2
      \<longrightarrow> (\<exists>b2 db2. updateBattle db1 battleId v = Inr (b2, db2)
             \<and> rounds b2 = (case u_rounds v of None \<Rightarrow> rounds b1 | Some rs \<Rightarrow> Some rs)
             \<and> state b2 = (if truthyString (u_state v) then u_state v else state b1)
             \<and> getBattle db2 (Some battleId) = Inr (Some b2))"
  proof
    assume h: "updateBattle db battleId u = Inr (b1, db1)
        \<and> toObjectIds (u_playerOneCards v) = Inr d1
        \<and> toObjectIds (u_playerTwoCards v) = Inr d2"
    then have r1: "updateBattle db battleId u = Inr (b1, db1)"
      and v1: "toObjectIds (u_playerOneCards v) = Inr d1"
      and v2: "toObjectIds (u_playerTwoCards v) = Inr d2"
      by simp_all
    from updateBattle_Inr [OF r1] obtain e1 e2 oid b0 where
      u1: "toObjectIds (u_playerOneCards u) = Inr e1"
      and u2: "toObjectIds (u_playerTwoCards u) = Inr e2"
      and oid: "ObjectId_new battleId = Inr oid"
      and f0: "find (\<lambda>b. battle_oid b = oid) (docs db) = Some b0"
      by blast
    from updateBattle_found [OF u1 u2 oid f0] r1 obtain w1 where
      b1: "b1 = decorateBattle w1"
      and f1: "find (\<lambda>b. battle_oid b = oid) (docs db1) = Some w1"
      by auto
    from updateBattle_found [OF v1 v2 oid f1] obtain db2 where
      r2: "updateBattle db1 battleId v =
             Inr (decorateBattle
                    (setBattle \<lparr> u_state = (if truthyString (u_state v) then u_state v else None),
                                 u_playerOneCards = d1, u_playerTwoCards = d2,
                                 u_rounds = u_rounds v,
                                 u_winnerId = (if truthyString (u_winnerId v) then u_winnerId v else None) \<rparr>
                       w1), db2)"
      and f2: "find (\<lambda>b. battle_oid b = oid) (docs db2) =
             Some (setBattle \<lparr> u_state = (if truthyString (u_state v) then u_state v else None),
                               u_playerOneCards = d1, u_playerTwoCards = d2,
                               u_rounds = u_rounds v,
                               u_winnerId = (if truthyString (u_winnerId v) then u_winnerId v else None) \<rparr>
                     w1)"
      by blast
    let ?b2 = "decorateBattle
                    (setBattle \<lparr> u_state = (if truthyString (u_state v) then u_state v else None),
                                 u_playerOneCards = d1, u_playerTwoCards = d2,
                                 u_rounds = u_rounds v,
                                 u_winnerId = (if truthyString (u_winnerId v) then u_winnerId v else None) \<rparr>
                       w1)"
    have g: "getBattle db2 (Some battleId) = Inr (Some ?b2)"
      using getBattle_found [OF oid, of db2] f2 by simp
    have rs: "rounds ?b2 = (case u_rounds v of None \<Rightarrow> rounds b1 | Some rs \<Rightarrow> Some rs)"
      by (simp add: b1 setBattle_fields split: option.splits)
    have st: "state ?b2 = (if truthyString (u_state v) then u_state v else state b1)"
      by (simp add: b1 setBattle_fields)
    from r2 rs st g
    show "\<exists>b2 db2. updateBattle db1 battleId v = Inr (b2, db2)
             \<and> rounds b2 = (case u_rounds v of None \<Rightarrow> rounds b1 | Some rs \<Rightarrow> Some rs)
             \<and> state b2 = (if truthyString (u_state v) then u_state v else state b1)
             \<and> getBattle db2 (Some battleId) = Inr (Some b2)"
      by blast
  qed
  from A B C D show ?thesis by (intro conjI)
qed

theorem updateBattle_ignores_current_state_witness:
  "toObjectIds (u_playerOneCards (roundUpdate 11)) = Inr None
   \<and> toObjectIds (u_playerTwoCards (roundUpdate 11)) = Inr None
   \<and> ObjectId_new battleOne = Inr 1
   \<and> battle_oid requestedBattle \<noteq> 1
   \<and> battle_oid completedBattle = 1
   \<and> updateBattle \<lparr> docs = [requestedBattle, completedBattle], nextId = 3 \<rparr> battleOne (roundUpdate 11)
       = Inr (decorateBattle (completedBattle\<lparr> rounds := Some [11] \<rparr>),
              \<lparr> docs = [requestedBattle, completedBattle\<lparr> rounds := Some [11] \<rparr>], nextId = 3 \<rparr>)
   \<and> (\<exists>b2 db2.
         updateBattle \<lparr> docs = [requestedBattle, completedBattle\<lparr> rounds := Some [11] \<rparr>], nextId = 3 \<rparr>
             battleOne (roundUpdate 22) = Inr (b2, db2)
         \<and> rounds b2 = Some [22]
         \<and> state b2 = Some COMPLETED
         \<and> getBattle db2 (Some battleOne) = Inr (Some b2))
   \<and> updateBattle \<lparr> docs = [completedBattle], nextId = 2 \<rparr> ''000000000000000000000009'' (roundUpdate 11)
       = Inl (Error ''No battle found with the provided ID'')"
proof -
  let ?db = "\<lparr> docs = [requestedBattle, completedBattle], nextId = 3 \<rparr>"
  let ?b1 = "decorateBattle (completedBattle\<lparr> rounds := Some [11] \<rparr>)"
  let ?db1 = "\<lparr> docs = [requestedBattle, completedBattle\<lparr> rounds := Some [11] \<rparr>], nextId = 3 \<rparr>"
  note t = updateBattle_ignores_current_state
             [of ?db battleOne "roundUpdate 11" BSONError None None 1 completedBattle
                 ?b1 ?db1 "roundUpdate 22" None None]
  have a: "toObjectIds (u_playerOneCards (roundUpdate 11)) = Inr None"
    and b: "toObjectIds (u_playerTwoCards (roundUpdate 11)) = Inr None"
    and a2: "toObjectIds (u_playerOneCards (roundUpdate 22)) = Inr None"
    and b2: "toObjectIds (u_playerTwoCards (roundUpdate 22)) = Inr None"
    by (simp_all add: roundUpdate_def toObjectIds_def)
  have c: "ObjectId_new battleOne = Inr 1" by code_simp
  have d1: "battle_oid requestedBattle \<noteq> 1" and d2: "battle_oid completedBattle = 1"
    by (simp_all add: requestedBattle_def completedBattle_def)
  from d1 d2 have f: "find (\<lambda>x. battle_oid x = 1) (docs ?db) = Some completedBattle"
    by simp
  from a b c f have h: "toObjectIds (u_playerOneCards (roundUpdate 11)) = Inr None
        \<and> toObjectIds (u_playerTwoCards (roundUpdate 11)) = Inr None
        \<and> ObjectId_new battleOne = Inr 1
        \<and> find (\<lambda>x. battle_oid x = 1) (docs ?db) = Some completedBattle"
    by (simp only: simp_thms)
  from t [THEN conjunct2, THEN conjunct2, THEN conjunct1, THEN mp, OF h] d1 d2
  have w: "updateBattle ?db battleOne (roundUpdate 11) = Inr (?b1, ?db1)"
    by (simp add: Let_def roundUpdate_def truthyString_def completedBattle_def)
  from w a2 b2 have h2: "updateBattle ?db battleOne (roundUpdate 11) = Inr (?b1, ?db1)
        \<and> toObjectIds (u_playerOneCards (roundUpdate 22)) = Inr None
        \<and> toObjectIds (u_playerTwoCards (roundUpdate 22)) = Inr None"
    by (simp only: simp_thms)
  from t [THEN conjunct2, THEN conjunct2, THEN conjunct2, THEN mp, OF h2]
  have s: "\<exists>b2 db2. updateBattle ?db1 battleOne (roundUpdate 22) = Inr (b2, db2)
         \<and> rounds b2 = Some [22]
         \<and> state b2 = Some COMPLETED
         \<and> getBattle db2 (Some battleOne) = Inr (Some b2)"
    by (simp add: roundUpdate_def truthyString_def completedBattle_def)
  have e: "updateBattle \<lparr> docs = [completedBattle], nextId = 2 \<rparr> ''000000000000000000000009'' (roundUpdate 11)
       = Inl (Error ''No battle found with the provided ID'')"
    by code_simp
  from a b c d1 d2 w s e show ?thesis by (simp only: simp_thms)
qed

subsection \<open>getBattleCard\<close>

lemma find_append_first:
  "find P (xs @ ys) = (case find P xs of None \<Rightarrow> find P ys | Some x \<Rightarrow> Some x)"
  by (induction xs) auto

lemma rosterHas_find:
  "rosterHas oid r \<longleftrightarrow> find (\<lambda>c. bc_id c = oid) (rosterOf r) \<noteq> None"
  by (cases r) (auto simp: rosterHas_def rosterOf_def list_ex_iff find_None_iff)

lemma rosterHas_either:
  "(rosterHas oid (playerOneCards b) \<or> rosterHas oid (playerTwoCards b))
     = list_ex (\<lambda>c. bc_id c = oid) (rosterOf (playerOneCards b) @ rosterOf (playerTwoCards b))"
  by (auto simp: rosterHas_def rosterOf_def list_ex_iff split: option.splits)

lemma getBattleCard_well_formed:
  assumes "ObjectId_new s = Inr oid"
  shows "getBattleCard db (Some s) =
     (case find (\<lambda>b. list_ex (\<lambda>c. bc_id c = oid)
                        (rosterOf (playerOneCards b) @ rosterOf (playerTwoCards b))) (docs db) of
        None \<Rightarrow> Inl (Error ''No battle containing a battle card with the given id found'')
      | Some b \<Rightarrow>
          (case playerOneCards b of
             None \<Rightarrow> Inl TypeError
           | Some cs1 \<Rightarrow>
               (case find (\<lambda>c. bc_id c = oid) cs1 of
                  Some battleCard \<Rightarrow> Inr (Some (decorateBattleCard battleCard))
                | None \<Rightarrow>
                    (case playerTwoCards b of
                       None \<Rightarrow> Inl TypeError
                     | Some cs2 \<Rightarrow>
                         Inr (map_option decorateBattleCard (find (\<lambda>c. bc_id c = oid) cs2))))))"
  using assms ObjectId_new_nonempty [OF assms]
  by (simp add: getBattleCard_def rosterHas_either)

lemma getBattleCard_selected:
  assumes "ObjectId_new s = Inr oid"
    and "find (\<lambda>b. list_ex (\<lambda>c. bc_id c = oid)
                      (rosterOf (playerOneCards b) @ rosterOf (playerTwoCards b))) (docs db) = Some b"
    and "playerOneCards b = Some cs1"
  shows "\<exists>c. find (\<lambda>c. bc_id c = oid) (cs1 @ rosterOf (playerTwoCards b)) = Some c
           \<and> getBattleCard db (Some s) = Inr (Some (decorateBattleCard c))"
proof -
  from assms(2) have has: "list_ex (\<lambda>c. bc_id c = oid)
                      (rosterOf (playerOneCards b) @ rosterOf (playerTwoCards b))"
    by (auto simp: find_Some_iff)
  show ?thesis
  proof (cases "find (\<lambda>c. bc_id c = oid) cs1")
    case (Some c)
    with assms show ?thesis
      by (simp add: getBattleCard_well_formed find_append_first)
  next
    case None
    with has assms(3) have "list_ex (\<lambda>c. bc_id c = oid) (rosterOf (playerTwoCards b))"
      by (auto simp: rosterOf_def list_ex_iff find_None_iff)
    then obtain cs2 c where "playerTwoCards b = Some cs2" "find (\<lambda>c. bc_id c = oid) cs2 = Some c"
      by (cases "playerTwoCards b"; cases "find (\<lambda>c. bc_id c = oid) (rosterOf (playerTwoCards b))")
         (auto simp: rosterOf_def list_ex_iff find_None_iff)
    with None assms show ?thesis
      by (simp add: getBattleCard_well_formed find_append_first rosterOf_def)
  qed
qed

lemma getBattleCard_not_null:
  assumes "s \<noteq> []"
  shows "getBattleCard db (Some s) \<noteq> Inr None"
proof (cases "ObjectId_new s")
  case (Inl e)
  with assms show ?thesis by (simp add: getBattleCard_def)
next
  case (Inr oid)
  show ?thesis
  proof (cases "find (\<lambda>b. list_ex (\<lambda>c. bc_id c = oid)
                        (rosterOf (playerOneCards b) @ rosterOf (playerTwoCards b))) (docs db)")
    case None
    with Inr show ?thesis by (simp add: getBattleCard_well_formed)
  next
    case (Some b)
    show ?thesis
    proof (cases "playerOneCards b")
      case None
      with Inr Some show ?thesis by (simp add: getBattleCard_well_formed)
    next
      case (Some cs1)
      from getBattleCard_selected [OF Inr \<open>find _ (docs db) = Some b\<close> Some]
      show ?thesis by auto
    qed
  qed
qed

lemma getBattleCard_not_found_iff:
  assumes "ObjectId_new s = Inr oid"
  shows "getBattleCard db (Some s)
           = Inl (Error ''No battle containing a battle card with the given id found'')
         \<longleftrightarrow> (\<forall>b\<in>set (docs db).
                \<forall>c\<in>set (rosterOf (playerOneCards b) @ rosterOf (playerTwoCards b)). bc_id c \<noteq> oid)"
proof (cases "find (\<lambda>b. list_ex (\<lambda>c. bc_id c = oid)
                        (rosterOf (playerOneCards b) @ rosterOf (playerTwoCards b))) (docs db)")
  case None
  then have "\<forall>b\<in>set (docs db).
                \<forall>c\<in>set (rosterOf (playerOneCards b) @ rosterOf (playerTwoCards b)). bc_id c \<noteq> oid"
    by (simp add: find_None_iff list_ex_iff)
  with None assms show ?thesis by (simp add: getBattleCard_well_formed)
next
  case (Some b)
  then have "b \<in> set (docs db)"
    and "list_ex (\<lambda>c. bc_id c = oid) (rosterOf (playerOneCards b) @ rosterOf (playerTwoCards b))"
    by (auto simp: find_Some_iff)
  then have n: "\<not> (\<forall>b\<in>set (docs db).
                \<forall>c\<in>set (rosterOf (playerOneCards b) @ rosterOf (playerTwoCards b)). bc_id c \<noteq> oid)"
    by (auto simp: list_ex_iff)
  have "getBattleCard db (Some s)
           \<noteq> Inl (Error ''No battle containing a battle card with the given id found'')"
    using assms Some
    by (simp add: getBattleCard_well_formed split: option.splits)
  with n show ?thesis by simp
qed

text \<open>
  Claim C6, as stated, fails: for the identifier \<^verbatim>\<open>xyz\<close>, which no card of any roster
  has, the outcome is not the not-found outcome: \<^verbatim>\<open>new ObjectId\<close> throws before any
  roster is searched.
\<close>

theorem getBattleCard_malformed_id_counterexample:
  "getBattleCard \<lparr> docs = [requestedBattle, activeBattle], nextId = 3 \<rparr> (Some ''xyz'')
     = Inl BSONError"
  by code_simp

text \<open>
  Claim C6, amended. \<^verbatim>\<open>getBattleCard\<close> takes the card identifier alone and looks the
  battle up itself: the first battle of the collection with a card of that identifier in
  one of its rosters. Without an identifier, or with the empty one, it returns \<^verbatim>\<open>null\<close>;
  with a non-empty identifier it never returns \<^verbatim>\<open>null\<close>. An identifier that is not an
  ObjectId string makes it throw the driver's error. For an ObjectId string, it throws
  \<^verbatim>\<open>No battle containing a battle card with the given id found\<close> exactly when no card
  of any roster of any battle has the identifier; and when the battle looked up carries
  \<^verbatim>\<open>playerOneCards\<close>, it returns the first card with the identifier in
  \<^verbatim>\<open>playerOneCards\<close> followed by \<^verbatim>\<open>playerTwoCards\<close>, its identifier as a string.
\<close>

theorem getBattleCard_first_match:
  "getBattleCard db None = Inr None
   \<and> getBattleCard db (Some []) = Inr None
   \<and> (s \<noteq> [] \<longrightarrow> getBattleCard db (Some s) \<noteq> Inr None)
   \<and> (s \<noteq> [] \<and> ObjectId_new s = Inl e \<longrightarrow> getBattleCard db (Some s) = Inl BSONError)
   \<and> (ObjectId_new s = Inr oid \<longrightarrow>
        (getBattleCard db (Some s)
           = Inl (Error ''No battle containing a battle card with the given id found'')
         \<longleftrightarrow> (\<forall>b\<in>set (docs db).
                \<forall>c\<in>set (rosterOf (playerOneCards b) @ rosterOf (playerTwoCards b)). bc_id c \<noteq> oid)))
   \<and> (ObjectId_new s = Inr oid
        \<and> find (\<lambda>b. list_ex (\<lambda>c. bc_id c = oid)
                       (rosterOf (playerOneCards b) @ rosterOf (playerTwoCards b))) (docs db) = Some b
        \<and> playerOneCards b = Some cs1
      \<longrightarrow> (\<exists>c. find (\<lambda>c. bc_id c = oid) (cs1 @ rosterOf (playerTwoCards b)) = Some c
              \<and> getBattleCard db (Some s) = Inr (Some (decorateBattleCard c))))"
proof -
  have A: "getBattleCard db None = Inr None" and B: "getBattleCard db (Some []) = Inr None"
    by (simp_all add: getBattleCard_def)
  have C: "s \<noteq> [] \<longrightarrow> getBattleCard db (Some s) \<noteq> Inr None"
    using getBattleCard_not_null [of s db] by blast
  have D: "s \<noteq> [] \<and> ObjectId_new s = Inl e \<longrightarrow> getBattleCard db (Some s) = Inl BSONError"
    using ObjectId_new_Inl [of s e] by (auto simp: getBattleCard_def)
  have E: "ObjectId_new s = Inr oid \<longrightarrow>
        (getBattleCard db (Some s)
           = Inl (Error ''No battle containing a battle card with the given id found'')
         \<longleftrightarrow> (\<forall>b\<in>set (docs db).
                \<forall>c\<in>set (rosterOf (playerOneCards b) @ rosterOf (playerTwoCards b)). bc_id c \<noteq> oid))"
    using getBattleCard_not_found_iff [of s oid db] by (rule impI)
  have F: "ObjectId_new s = Inr oid
        \<and> find (\<lambda>b. list_ex (\<lambda>c. bc_id c = oid)
                       (rosterOf (playerOneCards b) @ rosterOf (playerTwoCards b))) (docs db) = Some b
        \<and> playerOneCards b = Some cs1
      \<longrightarrow> (\<exists>c. find (\<lambda>c. bc_id c = oid) (cs1 @ rosterOf (playerTwoCards b)) = Some c
              \<and> getBattleCard db (Some s) = Inr (Some (decorateBattleCard c)))"
  proof
    assume h: "ObjectId_new s = Inr oid
        \<and> find (\<lambda>b. list_ex (\<lambda>c. bc_id c = oid)
                       (rosterOf (playerOneCards b) @ rosterOf (playerTwoCards b))) (docs db) = Some b
        \<and> playerOneCards b = Some cs1"
    show "\<exists>c. find (\<lambda>c. bc_id c = oid) (cs1 @ rosterOf (playerTwoCards b)) = Some c
              \<and> getBattleCard db (Some s) = Inr (Some (decorateBattleCard c))"
      by (rule getBattleCard_selected [OF h [THEN conjunct1] h [THEN conjunct2, THEN conjunct1]
                 h [THEN conjunct2, THEN conjunct2]])
  qed
  from A B C D E F show ?thesis by (intro conjI)
qed

theorem getBattleCard_first_match_witness:
  "ObjectId_new ''0000000000000000000000b1'' = Inr 0xB1
   \<and> playerOneCards activeBattle = Some [\<lparr> bc_id = 0xA1, bc_card = ''Alakazam'' \<rparr>]
   \<and> getBattleCard \<lparr> docs = [requestedBattle, activeBattle], nextId = 3 \<rparr>
         (Some ''0000000000000000000000b1'')
       = Inr (Some \<lparr> bc_id = ''0000000000000000000000b1'', bc_card = ''Blastoise'' \<rparr>)
   \<and> getBattleCard \<lparr> docs = [requestedBattle, activeBattle], nextId = 3 \<rparr>
         (Some ''0000000000000000000000b1'') \<noteq> Inr None
   \<and> ObjectId_new ''xyz'' = Inl BSONError
   \<and> getBattleCard \<lparr> docs = [requestedBattle, activeBattle], nextId = 3 \<rparr> (Some ''xyz'') = Inl BSONError
   \<and> ObjectId_new ''0000000000000000000000ff'' = Inr 0xFF
   \<and> getBattleCard \<lparr> docs = [requestedBattle, activeBattle], nextId = 3 \<rparr>
         (Some ''0000000000000000000000ff'')
       = Inl (Error ''No battle containing a battle card with the given id found'')"
proof -
  let ?db = "\<lparr> docs = [requestedBattle, activeBattle], nextId = 3 \<rparr>"
  note t = getBattleCard_first_match
             [of ?db "''0000000000000000000000b1''" BSONError "0xB1" activeBattle
                 "[\<lparr> bc_id = 0xA1, bc_card = ''Alakazam'' \<rparr>]"]
  have a: "ObjectId_new ''0000000000000000000000b1'' = Inr 0xB1" by code_simp
  have b: "playerOneCards activeBattle = Some [\<lparr> bc_id = 0xA1, bc_card = ''Alakazam'' \<rparr>]"
    by (simp add: activeBattle_def)
  have c: "find (\<lambda>b. list_ex (\<lambda>c. bc_id c = 0xB1)
                       (rosterOf (playerOneCards b) @ rosterOf (playerTwoCards b))) (docs ?db)
             = Some activeBattle"
    by (simp add: requestedBattle_def activeBattle_def rosterOf_def)
  from a c b have h: "ObjectId_new ''0000000000000000000000b1'' = Inr 0xB1
        \<and> find (\<lambda>b. list_ex (\<lambda>c. bc_id c = 0xB1)
                       (rosterOf (playerOneCards b) @ rosterOf (playerTwoCards b))) (docs ?db)
            = Some activeBattle
        \<and> playerOneCards activeBattle = Some [\<lparr> bc_id = 0xA1, bc_card = ''Alakazam'' \<rparr>]"
    by (simp only: simp_thms)
  have d: "decorateBattleCard \<lparr> bc_id = 0xB1, bc_card = ''Blastoise'' \<rparr>
             = \<lparr> bc_id = ''0000000000000000000000b1'', bc_card = ''Blastoise'' \<rparr>"
    by code_simp
  from t [THEN conjunct2, THEN conjunct2, THEN conjunct2, THEN conjunct2, THEN conjunct2,
          THEN mp, OF h] d
  have w: "getBattleCard ?db (Some ''0000000000000000000000b1'')
       = Inr (Some \<lparr> bc_id = ''0000000000000000000000b1'', bc_card = ''Blastoise'' \<rparr>)"
    by (auto simp: activeBattle_def rosterOf_def)
  have ne: "''0000000000000000000000b1'' \<noteq> []" by simp
  from t [THEN conjunct2, THEN conjunct2, THEN conjunct1, THEN mp, OF ne]
  have n: "getBattleCard ?db (Some ''0000000000000000000000b1'') \<noteq> Inr None" .
  have x: "ObjectId_new ''xyz'' = Inl BSONError" by code_simp
  then have hx: "''xyz'' \<noteq> [] \<and> ObjectId_new ''xyz'' = Inl BSONError" by simp
  from getBattleCard_first_match
         [of ?db "''xyz''" BSONError 0 activeBattle "[]",
          THEN conjunct2, THEN conjunct2, THEN conjunct2, THEN conjunct1, THEN mp, OF hx]
  have y: "getBattleCard ?db (Some ''xyz'') = Inl BSONError" .
  have f: "ObjectId_new ''0000000000000000000000ff'' = Inr 0xFF" by code_simp
  have g: "\<forall>b\<in>set (docs ?db).
             \<forall>c\<in>set (rosterOf (playerOneCards b) @ rosterOf (playerTwoCards b)). bc_id c \<noteq> 0xFF"
    by (simp add: requestedBattle_def activeBattle_def rosterOf_def)
  from getBattleCard_first_match
         [of ?db "''0000000000000000000000ff''" BSONError "0xFF" activeBattle "[]",
          THEN conjunct2, THEN conjunct2, THEN conjunct2, THEN conjunct2, THEN conjunct1,
          THEN mp, OF f, THEN iffD2, OF g]
  have z: "getBattleCard ?db (Some ''0000000000000000000000ff'')
       = Inl (Error ''No battle containing a battle card with the given id found'')" .
  from a b w n x y f z show ?thesis by (simp only: simp_thms)
qed

text \<open>
  A battle stored without \<^verbatim>\<open>playerOneCards\<close>: \<^verbatim>\<open>battle.playerOneCards.find\<close> is a
  TypeError, also when \<^verbatim>\<open>playerTwoCards\<close> holds the card. \<^verbatim>\<open>_decorateBattle\<close> tests the
  roster before it reads it; \<^verbatim>\<open>getBattleCard\<close> does not.
\<close>

lemma getBattleCard_missing_roster:
  "getBattleCard \<lparr> docs = [activeBattle\<lparr> playerOneCards := None \<rparr>], nextId = 2 \<rparr>
       (Some ''0000000000000000000000b1'') = Inl TypeError"
  by code_simp

subsection \<open>Properties of round resolution\<close>

lemma resolveRound_hpA: "hpA (resolveRound a b) = max 0 (currentHp a - attackDamage b)"
  by (simp add: resolveRound_def Let_def)

lemma resolveRound_hpB: "hpB (resolveRound a b) = max 0 (currentHp b - attackDamage a)"
  by (simp add: resolveRound_def Let_def)

lemma resolveRound_scenario:
  "hpA (resolveRound cardX cardY) = 30 \<and> hpB (resolveRound cardX cardY) = 30
   \<and> winner (resolveRound cardX cardY) = Tie"
  by (simp add: resolveRound_def cardX_def cardY_def Let_def)

lemma resolveRound_not_sequential:
  "resolveSequential \<lparr> cardId = ''X'', attackDamage = 50, baseHp = 60, currentHp = 60 \<rparr> cardY = (60, 0)
   \<and> hpA (resolveRound \<lparr> cardId = ''X'', attackDamage = 50, baseHp = 60, currentHp = 60 \<rparr> cardY) = 30"
  by (simp add: resolveRound_def resolveSequential_def cardY_def Let_def)

text \<open>
  Claim C1. For every pair of BattleCards, the round leaves each card with its pre-round
  \<^verbatim>\<open>currentHp\<close> minus the other card's attack damage, clamped at 0: both results read the
  pre-round values only, and neither is negative. For X (currentHp 60, damage 20) against
  Y (currentHp 50, damage 30) both cards are left at 30 and the round is a tie.
\<close>

theorem resolveRound_simultaneous_clamped:
  "hpA (resolveRound a b) = max 0 (currentHp a - attackDamage b)
   \<and> hpB (resolveRound a b) = max 0 (currentHp b - attackDamage a)
   \<and> 0 \<le> hpA (resolveRound a b) \<and> 0 \<le> hpB (resolveRound a b)
   \<and> damageAtoB (resolveRound a b) = attackDamage a
   \<and> damageBtoA (resolveRound a b) = attackDamage b
   \<and> hpA (resolveRound cardX cardY) = 30
   \<and> hpB (resolveRound cardX cardY) = 30
   \<and> winner (resolveRound cardX cardY) = Tie"
proof -
  have "damageAtoB (resolveRound a b) = attackDamage a"
    and "damageBtoA (resolveRound a b) = attackDamage b"
    by (simp_all add: resolveRound_def Let_def)
  then show ?thesis
    using resolveRound_scenario by (simp add: resolveRound_hpA resolveRound_hpB)
qed

text \<open>
  Claim C4. Round resolution is commutative up to the exchange of the two sides: resolving
  B against A gives the result of resolving A against B with the identifiers, the damage
  dealt each way, the remaining hit points, the eliminations and the winner swapped.
\<close>

theorem resolveRound_commutative:
  "resolveRound b a = swapSides (resolveRound a b)"
  by (simp add: resolveRound_def swapSides_def Let_def)

end
